theory Spec2Isabelle
  imports Main "HOL-Library.Word" "HOL-Library.Monad_Syntax"
begin

section \<open>Values exchanged with the browser and the model runtime\<close>

text \<open>
  Bytes are 8-bit words: the elements of a \<open>Uint8Array\<close> or \<open>Uint8ClampedArray\<close>.
  A browser \<open>File\<close> is its name, its MIME type and its contents. A thrown JavaScript
  value is either an \<open>Error\<close> object with its message, or some value that is not an
  instance of \<open>Error\<close>.
\<close>

type_synonym u8 = "8 word"

record File =
  name :: string
  type :: string
  bits :: "u8 list"

datatype thrown = Error string | NonError

text \<open>
  One record stands for the three pixel carriers of \<open>processImage\<close>: the decoded
  \<open>RawImage\<close> (in the RGBA form that \<open>img.toCanvas()\<close> paints), a DOM \<open>ImageData\<close>
  and the bitmap of a canvas. \<open>data\<close> holds four bytes per pixel, row-major: red, green,
  blue, alpha. In a \<open>RawImage\<close> and an \<open>ImageData\<close> the colours are straight; the
  bitmap of a canvas keeps them multiplied by alpha.
\<close>

record ImageData =
  width :: nat
  height :: nat
  data :: "u8 list"

type_synonym RawImage = ImageData
type_synonym canvas = ImageData

text \<open>
  What the program does to its surroundings is recorded in order: every call of an
  external collaborator and every \<open>console.error\<close> (its label, or the empty string when
  it has none, and the value logged). The world also carries the two runtime options that
  \<open>initializeModel\<close> writes; \<open>wasm_proxy\<close> is \<open>None\<close> when
  \<open>env.backends?.onnx?.wasm\<close> is absent.
\<close>

datatype event =
    FromPretrainedModel
  | FromPretrainedProcessor
  | FromURL
  | CallProcessor
  | CallModel
  | ResizeMask
  | CreateCanvas
  | GetContext
  | ToBlob
  | ConsoleError string thrown

record world =
  allowLocalModels :: bool
  wasm_proxy :: "bool option"
  trace :: "event list"

definition emit :: "event \<Rightarrow> world \<Rightarrow> world" where
  "emit e w = w\<lparr>trace := trace w @ [e]\<rparr>"

text \<open>Several events in a row; used to name the world at a later point of a run.\<close>

definition emits :: "event list \<Rightarrow> world \<Rightarrow> world" where
  "emits es w = foldl (\<lambda>v e. emit e v) w es"

text \<open>
  The external collaborators, as parameters. \<open>'t\<close> is the tensor the processor
  produces, \<open>'o\<close> the model's output. A loaded model or processor is the function it
  computes. \<open>mask_of_output out w h\<close> is
  \<open>RawImage.fromTensor(output[0].mul(255).to("uint8")).resize(w, h)\<close>, read at \<open>.data\<close>.
  \<open>getContext\<close> (is a 2d context granted?) and \<open>toBlob\<close> (the PNG bytes of a
  canvas, or \<open>None\<close> for a null blob) are asked twice per run, so their answer may
  depend on the world at the moment of the call.
\<close>

record ('t, 'o) platform =
  from_pretrained_model :: "string \<Rightarrow> thrown + ('t \<Rightarrow> thrown + 'o)"
  from_pretrained_processor :: "string \<Rightarrow> thrown + (RawImage \<Rightarrow> thrown + 't)"
  fromURL :: "File \<Rightarrow> thrown + RawImage"
  mask_of_output :: "'o \<Rightarrow> nat \<Rightarrow> nat \<Rightarrow> thrown + u8 list"
  getContext :: "world \<Rightarrow> bool"
  toBlob :: "world \<Rightarrow> canvas \<Rightarrow> u8 list option"

section \<open>The model session (lib/process)\<close>

definition MODEL_ID :: string where
  "MODEL_ID = ''briaai/RMBG-1.4''"

record ('t, 'o) ModelState =
  model :: "('t \<Rightarrow> thrown + 'o) option"
  processor :: "(RawImage \<Rightarrow> thrown + 't) option"
  currentModelId :: string

definition state :: "('t, 'o) ModelState" where
  "state = \<lparr>model = None, processor = None, currentModelId = MODEL_ID\<rparr>"

subsection \<open>initializeModel\<close>

text \<open>
  The message of the error that the \<open>catch\<close> block rethrows:
  \<open>error instanceof Error ? error.message : "Failed to initialize ..."\<close>.
\<close>

fun init_message :: "thrown \<Rightarrow> string" where
  "init_message (Error m) = m"
| "init_message NonError = ''Failed to initialize background removal model''"

text \<open>
  The configuration objects passed to the two loaders are literals of the source, so a
  loader is a function of the model identifier. The result is the value the promise
  settles with (\<open>Inl\<close>: rejected), the module state and the world afterwards.
\<close>

definition initializeModel ::
  "('t, 'o) platform \<Rightarrow> ('t, 'o) ModelState \<Rightarrow> world
     \<Rightarrow> (thrown + bool) \<times> ('t, 'o) ModelState \<times> world" where
  "initializeModel P st w =
     (let w1 = w\<lparr>allowLocalModels := False\<rparr>;
          w2 = (case wasm_proxy w1 of None \<Rightarrow> w1 | Some _ \<Rightarrow> w1\<lparr>wasm_proxy := Some True\<rparr>);
          w3 = emit FromPretrainedModel w2
      in case from_pretrained_model P MODEL_ID of
           Inl error \<Rightarrow>
             (Inl (Error (init_message error)), st,
              emit (ConsoleError ''Error initializing model:'' error) w3)
         | Inr m \<Rightarrow>
             (let st1 = st\<lparr>model := Some m\<rparr>;
                  w4 = emit FromPretrainedProcessor w3
              in case from_pretrained_processor P MODEL_ID of
                   Inl error \<Rightarrow>
                     (Inl (Error (init_message error)), st1,
                      emit (ConsoleError ''Error initializing model:'' error) w4)
                 | Inr p \<Rightarrow>
                     (Inr True, st1\<lparr>processor := Some p, currentModelId := MODEL_ID\<rparr>, w4)))"

subsection \<open>Typed arrays and the two pixel loops\<close>

text \<open>
  An indexed store into a typed array: an index outside the array is ignored. The values
  stored are bytes already, so the clamping of \<open>Uint8ClampedArray\<close> changes nothing.
\<close>

definition ta_set :: "u8 list \<Rightarrow> nat \<Rightarrow> u8 \<Rightarrow> u8 list" where
  "ta_set a k v = (if k < length a then a[k := v] else a)"

text \<open>
  \<open>for (let i = 0; i < maskData.length; ++i)\<close> of lines 106 to 112, started at \<open>i\<close>
  on the array \<open>d\<close> (\<open>maskPixelData.data\<close>).
\<close>

function mask_loop :: "u8 list \<Rightarrow> nat \<Rightarrow> u8 list \<Rightarrow> u8 list" where
  "mask_loop maskData i d =
     (if i < length maskData then
        (let v = maskData ! i;
             d1 = ta_set d (4 * i) v;
             d2 = ta_set d1 (4 * i + 1) v;
             d3 = ta_set d2 (4 * i + 2) v;
             d4 = ta_set d3 (4 * i + 3) 255
         in mask_loop maskData (i + 1) d4)
      else d)"
  by pat_completeness auto
termination
  by (relation "measure (\<lambda>(m, i, d). length m - i)") auto

declare mask_loop.simps [simp del]

text \<open>The loop of lines 143 to 145 on \<open>pixelData.data\<close>.\<close>

function alpha_loop :: "u8 list \<Rightarrow> nat \<Rightarrow> u8 list \<Rightarrow> u8 list" where
  "alpha_loop maskData i d =
     (if i < length maskData then
        alpha_loop maskData (i + 1) (ta_set d (4 * i + 3) (maskData ! i))
      else d)"
  by pat_completeness auto
termination
  by (relation "measure (\<lambda>(m, i, d). length m - i)") auto

declare alpha_loop.simps [simp del]

text \<open>
  The same two loops with every access checked: a load or a store outside its array
  stops the loop with \<open>None\<close> instead of being ignored.
\<close>

definition ta_load :: "u8 list \<Rightarrow> nat \<Rightarrow> u8 option" where
  "ta_load a k = (if k < length a then Some (a ! k) else None)"

definition ta_store :: "u8 list \<Rightarrow> nat \<Rightarrow> u8 \<Rightarrow> u8 list option" where
  "ta_store a k v = (if k < length a then Some (a[k := v]) else None)"

function mask_loop_checked :: "u8 list \<Rightarrow> nat \<Rightarrow> u8 list \<Rightarrow> u8 list option" where
  "mask_loop_checked maskData i d =
     (if i < length maskData then
        do {
          v \<leftarrow> ta_load maskData i;
          d1 \<leftarrow> ta_store d (4 * i) v;
          d2 \<leftarrow> ta_store d1 (4 * i + 1) v;
          d3 \<leftarrow> ta_store d2 (4 * i + 2) v;
          d4 \<leftarrow> ta_store d3 (4 * i + 3) 255;
          mask_loop_checked maskData (i + 1) d4
        }
      else Some d)"
  by pat_completeness auto
termination
  by (relation "measure (\<lambda>(m, i, d). length m - i)") auto

declare mask_loop_checked.simps [simp del]

function alpha_loop_checked :: "u8 list \<Rightarrow> nat \<Rightarrow> u8 list \<Rightarrow> u8 list option" where
  "alpha_loop_checked maskData i d =
     (if i < length maskData then
        do {
          v \<leftarrow> ta_load maskData i;
          d1 \<leftarrow> ta_store d (4 * i + 3) v;
          alpha_loop_checked maskData (i + 1) d1
        }
      else Some d)"
  by pat_completeness auto
termination
  by (relation "measure (\<lambda>(m, i, d). length m - i)") auto

declare alpha_loop_checked.simps [simp del]

subsection \<open>The drawing surface\<close>

text \<open>
  A 2d canvas keeps its bitmap premultiplied by alpha, in eight bits per channel: a colour
  byte \<open>c\<close> of a pixel of alpha \<open>a\<close> is kept as \<open>c * a / 255\<close> and read back as
  the kept byte times \<open>255 / a\<close>, both rounded to the nearest integer; a pixel of alpha 0
  reads back as transparent black. Alpha itself is kept as it is.
\<close>

definition premul :: "u8 \<Rightarrow> u8 \<Rightarrow> u8" where
  "premul c a = of_nat ((unat c * unat a + 127) div 255)"

definition unpremul :: "u8 \<Rightarrow> u8 \<Rightarrow> u8" where
  "unpremul p a =
     (if a = 0 then 0 else of_nat (min 255 ((unat p * 255 + unat a div 2) div unat a)))"

text \<open>
  Byte \<open>k\<close> belongs to the pixel whose alpha is byte \<open>4 * (k div 4) + 3\<close>. Bytes
  after the last whole pixel are left alone.
\<close>

definition premultiply :: "u8 list \<Rightarrow> u8 list" where
  "premultiply d =
     map (\<lambda>k. if k mod 4 \<noteq> 3 \<and> 4 * (k div 4) + 3 < length d
              then premul (d ! k) (d ! (4 * (k div 4) + 3)) else d ! k)
       [0..<length d]"

definition unpremultiply :: "u8 list \<Rightarrow> u8 list" where
  "unpremultiply d =
     map (\<lambda>k. if k mod 4 \<noteq> 3 \<and> 4 * (k div 4) + 3 < length d
              then unpremul (d ! k) (d ! (4 * (k div 4) + 3)) else d ! k)
       [0..<length d]"

text \<open>
  Source-over composition of premultiplied bytes: every byte of the source, alpha
  included, is added to the destination's byte scaled by \<open>255 - alpha\<close> of the source
  pixel.
\<close>

definition over :: "u8 \<Rightarrow> u8 \<Rightarrow> u8 \<Rightarrow> u8" where
  "over s sa d = of_nat (min 255 (unat s + (unat d * (255 - unat sa) + 127) div 255))"

definition source_over :: "u8 list \<Rightarrow> u8 list \<Rightarrow> u8 list" where
  "source_over s d =
     map (\<lambda>k. if 4 * (k div 4) + 3 < length s
              then over (s ! k) (s ! (4 * (k div 4) + 3)) (d ! k) else d ! k)
       [0..<length d]"

text \<open>
  The source only makes full-surface calls at the origin, between surfaces of the
  dimensions of the decoded image, and the operations are specialised to them. A canvas
  whose \<open>width\<close> and \<open>height\<close> were just set is transparent black, as is a fresh
  \<open>ImageData\<close>. \<open>putImageData\<close> replaces the bitmap by the premultiplied bytes of
  the image data; \<open>getImageData\<close> reads the bitmap back as straight colours;
  \<open>drawImage\<close> composes the bitmap of another canvas over this one.
  \<open>img.toCanvas()\<close> is a canvas of the image's size with the image's RGBA bytes put on
  it.
\<close>

definition createCanvas :: "nat \<Rightarrow> nat \<Rightarrow> canvas" where
  "createCanvas w h = \<lparr>width = w, height = h, data = replicate (4 * w * h) 0\<rparr>"

definition createImageData :: "nat \<Rightarrow> nat \<Rightarrow> ImageData" where
  "createImageData sw sh = \<lparr>width = sw, height = sh, data = replicate (4 * sw * sh) 0\<rparr>"

definition putImageData :: "canvas \<Rightarrow> ImageData \<Rightarrow> canvas" where
  "putImageData c imagedata = c\<lparr>data := premultiply (data imagedata)\<rparr>"

definition getImageData :: "canvas \<Rightarrow> nat \<Rightarrow> nat \<Rightarrow> ImageData" where
  "getImageData c sw sh = \<lparr>width = sw, height = sh, data = unpremultiply (data c)\<rparr>"

definition drawImage :: "canvas \<Rightarrow> canvas \<Rightarrow> canvas" where
  "drawImage c src = c\<lparr>data := source_over (data src) (data c)\<rparr>"

definition toCanvas :: "RawImage \<Rightarrow> canvas" where
  "toCanvas img =
     putImageData (createCanvas (width img) (height img))
       \<lparr>width = width img, height = height img, data = data img\<rparr>"

subsection \<open>File names\<close>

text \<open>
  \<open>String.prototype.split\<close> with a separator of one code unit: the pieces between the
  separators, never an empty array. \<open>first\<close> is element 0 as a template literal prints
  it. The separator \<open>"."\<close> is ASCII, so splitting the bytes of a name and splitting
  its UTF-16 code units cut at the same places.
\<close>

fun split :: "'a \<Rightarrow> 'a list \<Rightarrow> 'a list list" where
  "split sep [] = [[]]"
| "split sep (c # cs) =
     (if c = sep then [] # split sep cs
      else (case split sep cs of [] \<Rightarrow> [[c]] | p # ps \<Rightarrow> (c # p) # ps))"

fun first :: "string list \<Rightarrow> string" where
  "first [] = ''undefined''"
| "first (x # xs) = x"

definition maskFileName :: "string \<Rightarrow> string" where
  "maskFileName nm = first (split CHR ''.'' nm) @ ''-mask.png''"

definition processedFileName :: "string \<Rightarrow> string" where
  "processedFileName nm = first (split CHR ''.'' nm) @ ''-bg-blasted.png''"

subsection \<open>processImage\<close>

record result =
  maskFile :: File
  processedFile :: File

text \<open>Lines 84 to 95: processor, model, and the mask resized to the image.\<close>

definition predict_mask ::
  "('t, 'o) platform \<Rightarrow> ('t \<Rightarrow> thrown + 'o) \<Rightarrow> (RawImage \<Rightarrow> thrown + 't) \<Rightarrow> RawImage \<Rightarrow> world
     \<Rightarrow> (thrown + u8 list) \<times> world" where
  "predict_mask P m p img w =
     (let w1 = emit CallProcessor w
      in case p img of
           Inl e \<Rightarrow> (Inl e, w1)
         | Inr pixel_values \<Rightarrow>
             (let w2 = emit CallModel w1
              in case m pixel_values of
                   Inl e \<Rightarrow> (Inl e, w2)
                 | Inr output \<Rightarrow>
                     (mask_of_output P output (width img) (height img), emit ResizeMask w2)))"

text \<open>Lines 105 to 114: the grey image of the mask, put on the mask canvas.\<close>

definition paint_mask :: "RawImage \<Rightarrow> u8 list \<Rightarrow> canvas \<Rightarrow> canvas" where
  "paint_mask img maskData maskCanvas =
     (let maskPixelData = createImageData (width img) (height img);
          maskPixelData1 = maskPixelData\<lparr>data := mask_loop maskData 0 (data maskPixelData)\<rparr>
      in putImageData maskCanvas maskPixelData1)"

text \<open>Lines 98 to 114: the mask canvas.\<close>

definition draw_mask ::
  "('t, 'o) platform \<Rightarrow> RawImage \<Rightarrow> u8 list \<Rightarrow> world \<Rightarrow> (thrown + canvas) \<times> world" where
  "draw_mask P img maskData w =
     (let w1 = emit CreateCanvas w;
          maskCanvas = createCanvas (width img) (height img);
          w2 = emit GetContext w1
      in if \<not> getContext P w1 then (Inl (Error ''Could not get 2d context''), w2)
         else (Inr (paint_mask img maskData maskCanvas), w2))"

text \<open>Lines 117 to 123 and 149 to 155: the promise around \<open>toBlob\<close>.\<close>

definition canvas_blob ::
  "('t, 'o) platform \<Rightarrow> canvas \<Rightarrow> world \<Rightarrow> (thrown + u8 list) \<times> world" where
  "canvas_blob P c w =
     (case toBlob P w c of
        None \<Rightarrow> (Inl (Error ''Failed to create blob''), emit ToBlob w)
      | Some blob \<Rightarrow> (Inr blob, emit ToBlob w))"

text \<open>
  Lines 139 to 146: the image drawn on the canvas, read back, its alpha bytes overwritten
  with the mask, and put on the canvas again.
\<close>

definition paint_composite :: "RawImage \<Rightarrow> u8 list \<Rightarrow> canvas \<Rightarrow> canvas" where
  "paint_composite img maskData c =
     (let c1 = drawImage c (toCanvas img);
          pixelData = getImageData c1 (width img) (height img);
          pixelData1 = pixelData\<lparr>data := alpha_loop maskData 0 (data pixelData)\<rparr>
      in putImageData c1 pixelData1)"

text \<open>Lines 132 to 146: the canvas with the image and the mask as its alpha channel.\<close>

definition draw_composite ::
  "('t, 'o) platform \<Rightarrow> RawImage \<Rightarrow> u8 list \<Rightarrow> world \<Rightarrow> (thrown + canvas) \<times> world" where
  "draw_composite P img maskData w =
     (let w1 = emit CreateCanvas w;
          c = createCanvas (width img) (height img);
          w2 = emit GetContext w1
      in if \<not> getContext P w1 then (Inl (Error ''Could not get 2d context''), w2)
         else (Inr (paint_composite img maskData c), w2))"

text \<open>Lines 97 to 161: from the decoded image and the mask to the two files.\<close>

definition compositing ::
  "('t, 'o) platform \<Rightarrow> string \<Rightarrow> RawImage \<Rightarrow> u8 list \<Rightarrow> world \<Rightarrow> (thrown + result) \<times> world" where
  "compositing P nm img maskData w =
     (case draw_mask P img maskData w of
        (Inl e, w1) \<Rightarrow> (Inl e, w1)
      | (Inr maskCanvas, w1) \<Rightarrow>
     (case canvas_blob P maskCanvas w1 of
        (Inl e, w2) \<Rightarrow> (Inl e, w2)
      | (Inr maskBlob, w2) \<Rightarrow>
     (case draw_composite P img maskData w2 of
        (Inl e, w3) \<Rightarrow> (Inl e, w3)
      | (Inr c, w3) \<Rightarrow>
     (case canvas_blob P c w3 of
        (Inl e, w4) \<Rightarrow> (Inl e, w4)
      | (Inr blob, w4) \<Rightarrow>
          (Inr \<lparr>maskFile = \<lparr>name = maskFileName nm, type = ''image/png'', bits = maskBlob\<rparr>,
                processedFile =
                  \<lparr>name = processedFileName nm, type = ''image/png'', bits = blob\<rparr>\<rparr>,
           w4)))))"

text \<open>The body of the \<open>try\<close> block, lines 82 to 161.\<close>

definition process_try ::
  "('t, 'o) platform \<Rightarrow> ('t \<Rightarrow> thrown + 'o) \<Rightarrow> (RawImage \<Rightarrow> thrown + 't) \<Rightarrow> string \<Rightarrow> RawImage
     \<Rightarrow> world \<Rightarrow> (thrown + result) \<times> world" where
  "process_try P m p nm img w =
     (case predict_mask P m p img w of
        (Inl e, w1) \<Rightarrow> (Inl e, w1)
      | (Inr maskData, w1) \<Rightarrow> compositing P nm img maskData w1)"

text \<open>
  The guard and the decoding stand before the \<open>try\<close>: what they throw reaches the
  caller as it is. Whatever is thrown inside the \<open>try\<close> is logged and replaced.
\<close>

definition processImage ::
  "('t, 'o) platform \<Rightarrow> ('t, 'o) ModelState \<Rightarrow> world \<Rightarrow> File \<Rightarrow> (thrown + result) \<times> world" where
  "processImage P st w imageFile =
     (case (model st, processor st) of
        (Some m, Some p) \<Rightarrow>
          (case fromURL P imageFile of
             Inl e \<Rightarrow> (Inl e, emit FromURL w)
           | Inr img \<Rightarrow>
               (case process_try P m p (name imageFile) img (emit FromURL w) of
                  (Inl error, w1) \<Rightarrow>
                    (Inl (Error ''Failed to process image''),
                     emit (ConsoleError ''Error processing image:'' error) w1)
                | (Inr r, w1) \<Rightarrow> (Inr r, w1)))
      | _ \<Rightarrow> (Inl (Error ''Model not initialized. Call initializeModel() first.''), w))"

section \<open>The controller (App)\<close>

text \<open>
  The component's state: the image record, or \<open>None\<close> for \<open>null\<close>, and the loading
  flag. An optional field that is absent or \<open>undefined\<close> is \<open>None\<close>.
\<close>

record image_record =
  id' :: int
  file' :: File
  maskFile' :: "File option"
  processedFile' :: "File option"

record App =
  image' :: "image_record option"
  isLoading :: bool

text \<open>
  The whole system: the component's state, the module state of lib/process, the world,
  and the calls of \<open>handleClick\<close> that are suspended at \<open>await processImage\<close>, each
  with the image record its closure holds.
\<close>

record ('t, 'o) system =
  app :: App
  session :: "('t, 'o) ModelState"
  env :: world
  inflight :: "image_record list"

definition initial :: "world \<Rightarrow> ('t, 'o) system" where
  "initial w = \<lparr>app = \<lparr>image' = None, isLoading = True\<rparr>, session = state, env = w, inflight = []\<rparr>"

text \<open>
  The effect run on mount, lines 13 to 25: from the call of \<open>initializeModel\<close> to
  \<open>setIsLoading(false)\<close>. Nothing else can happen in between, since only the spinner
  is on display.
\<close>

definition mount_effect :: "('t, 'o) platform \<Rightarrow> ('t, 'o) system \<Rightarrow> ('t, 'o) system" where
  "mount_effect P s =
     (case initializeModel P (session s) (env s) of
        (r, st1, w1) \<Rightarrow>
          (let w2 = (case r of
                       Inl err \<Rightarrow> emit (ConsoleError [] err) w1
                     | Inr initialized \<Rightarrow>
                         if \<not> initialized
                         then emit (ConsoleError []
                                (Error ''Failed to initialize background removal model'')) w1
                         else w1)
           in s\<lparr>app := (app s)\<lparr>isLoading := False\<rparr>, session := st1, env := w2\<rparr>))"

text \<open>
  \<open>event.target.files\<close> is \<open>None\<close> for \<open>null\<close>; \<open>now\<close> is the value of
  \<open>Date.now()\<close>.
\<close>

definition handleImageUpload :: "int \<Rightarrow> File list option \<Rightarrow> App \<Rightarrow> App" where
  "handleImageUpload now files a =
     (case files of
        Some (f # fs) \<Rightarrow>
          a\<lparr>image' := Some \<lparr>id' = now, file' = f, maskFile' = None, processedFile' = None\<rparr>\<rparr>
      | _ \<Rightarrow> a)"

text \<open>
  \<open>handleClick\<close> in two steps. Called with the record on display, it calls
  \<open>processImage\<close> and is suspended. When the promise settles it goes on: a result (an
  object, so always truthy) is stored with the record of the closure, an error is logged.
  The work of \<open>processImage\<close> is accounted for at the settlement; the module state it
  reads does not change once the mount effect is over.
\<close>

definition handleClick_call :: "('t, 'o) system \<Rightarrow> image_record \<Rightarrow> ('t, 'o) system" where
  "handleClick_call s imageRec = s\<lparr>inflight := inflight s @ [imageRec]\<rparr>"

definition handleClick_settle ::
  "('t, 'o) platform \<Rightarrow> ('t, 'o) system \<Rightarrow> nat \<Rightarrow> ('t, 'o) system" where
  "handleClick_settle P s k =
     (let imageRec = inflight s ! k;
          rest = take k (inflight s) @ drop (k + 1) (inflight s)
      in case processImage P (session s) (env s) (file' imageRec) of
           (Inr r, w1) \<Rightarrow>
             s\<lparr>app := (app s)\<lparr>image' := Some (imageRec\<lparr>processedFile' := Some (processedFile r),
                                                    maskFile' := Some (maskFile r)\<rparr>)\<rparr>,
               env := w1, inflight := rest\<rparr>
         | (Inl error, w1) \<Rightarrow>
             s\<lparr>env := emit (ConsoleError ''Error processing image:'' error) w1, inflight := rest\<rparr>)"

text \<open>
  What can happen, from the rendering (lines 54 to 102): while \<open>isLoading\<close> holds only
  the spinner is shown, so there is neither a file input nor a button; the button exists
  only when there is an image. The mount effect runs once, while the flag is still set.
\<close>

datatype ui_event = Mount | Upload int "File list option" | Click | Settle nat

fun step :: "('t, 'o) platform \<Rightarrow> ('t, 'o) system \<Rightarrow> ui_event \<Rightarrow> ('t, 'o) system" where
  "step P s Mount = (if isLoading (app s) then mount_effect P s else s)"
| "step P s (Upload now files) =
     (if isLoading (app s) then s else s\<lparr>app := handleImageUpload now files (app s)\<rparr>)"
| "step P s Click =
     (if isLoading (app s) then s
      else (case image' (app s) of None \<Rightarrow> s | Some imageRec \<Rightarrow> handleClick_call s imageRec))"
| "step P s (Settle k) = (if k < length (inflight s) then handleClick_settle P s k else s)"

definition run :: "('t, 'o) platform \<Rightarrow> world \<Rightarrow> ui_event list \<Rightarrow> ('t, 'o) system" where
  "run P w evs = foldl (step P) (initial w) evs"



section \<open>Concrete inputs\<close>

text \<open>
  A two-pixel image, a stub runtime whose model answers with the mask \<open>[7, 9]\<close> and
  whose encoder returns the straight RGBA bytes of the canvas, a runtime whose model
  cannot be loaded, one whose processor loader throws a value that is not an
  \<open>Error\<close>, one whose \<open>toBlob\<close> gives a blob once and null from then on, and a
  starting world. The general results below are instantiated on them.
\<close>

definition demo_image :: RawImage where
  "demo_image = \<lparr>width = 2, height = 1, data = [10, 20, 30, 255, 40, 50, 60, 128]\<rparr>"

definition demo_file :: File where
  "demo_file = \<lparr>name = ''cat.png'', type = ''image/png'', bits = [1, 2, 3]\<rparr>"

definition demo_platform :: "(unit, u8 list) platform" where
  "demo_platform =
     \<lparr>from_pretrained_model = (\<lambda>_. Inr (\<lambda>_. Inr [7, 9])),
      from_pretrained_processor = (\<lambda>_. Inr (\<lambda>_. Inr ())),
      fromURL = (\<lambda>_. Inr demo_image),
      mask_of_output = (\<lambda>out w h. Inr out),
      getContext = (\<lambda>_. True),
      toBlob = (\<lambda>_ c. Some (data (getImageData c (width c) (height c))))\<rparr>"

definition offline_platform :: "(unit, u8 list) platform" where
  "offline_platform =
     demo_platform\<lparr>from_pretrained_model := (\<lambda>_. Inl (Error ''fetch failed''))\<rparr>"

definition no_processor_platform :: "(unit, u8 list) platform" where
  "no_processor_platform = demo_platform\<lparr>from_pretrained_processor := (\<lambda>_. Inl NonError)\<rparr>"

definition one_blob_platform :: "(unit, u8 list) platform" where
  "one_blob_platform =
     demo_platform\<lparr>toBlob := (\<lambda>w c. if ToBlob \<in> set (trace w) then None
                                   else Some (data (getImageData c (width c) (height c))))\<rparr>"

definition demo_world :: world where
  "demo_world = \<lparr>allowLocalModels = True, wasm_proxy = Some False, trace = []\<rparr>"

text \<open>The module state once \<open>initializeModel\<close> has run on the stub runtime.\<close>

definition demo_state :: "(unit, u8 list) ModelState" where
  "demo_state = fst (snd (initializeModel demo_platform state demo_world))"

text \<open>
  The stub runtime after mount and one upload, the same with the runtime whose model
  cannot be loaded, and the component's state after a complete, successful run.
\<close>

definition demo_selected :: "(unit, u8 list) system" where
  "demo_selected = run demo_platform demo_world [Mount, Upload 1 (Some [demo_file])]"


definition processed_app :: App where
  "processed_app =
     app (run demo_platform demo_world [Mount, Upload 1 (Some [demo_file]), Click, Settle 0])"

section \<open>Events\<close>

lemma emits_Nil [simp]: "emits [] w = w"
  by (simp add: emits_def)

lemma emit_as_emits: "emit e w = emits [e] w"
  by (simp add: emits_def)

lemma trace_emits [simp]: "trace (emits es w) = trace w @ es"
  by (induction es arbitrary: w) (simp_all add: emits_def emit_def)

section \<open>The premultiplied bitmap\<close>

lemma premul_opaque [simp]: "premul c 255 = c"
  by (simp add: premul_def)

lemma unpremul_opaque [simp]: "unpremul p 255 = p"
proof -
  have "unat p \<le> 255" using unsigned_less [of p, where ?'a = nat] by simp
  then show ?thesis by (simp add: unpremul_def)
qed

lemma unpremul_transparent [simp]: "unpremul p 0 = 0"
  by (simp add: unpremul_def)

lemma over_transparent [simp]: "over s sa 0 = s"
proof -
  have "unat s \<le> 255" using unsigned_less [of s, where ?'a = nat] by simp
  then show ?thesis by (simp add: over_def)
qed

lemma length_premultiply [simp]: "length (premultiply d) = length d"
  by (simp add: premultiply_def)

lemma length_unpremultiply [simp]: "length (unpremultiply d) = length d"
  by (simp add: unpremultiply_def)

lemma length_source_over [simp]: "length (source_over s d) = length d"
  by (simp add: source_over_def)

lemma pixel_index:
  "j < 4 \<Longrightarrow> (4 * i + j) div 4 = (i :: nat)" "j < 4 \<Longrightarrow> (4 * i + j) mod 4 = (j :: nat)"
  by simp_all

lemma premultiply_colour:
  assumes "4 * i + 3 < length d" "j < 3"
  shows "premultiply d ! (4 * i + j) = premul (d ! (4 * i + j)) (d ! (4 * i + 3))"
  using assms by (simp add: premultiply_def pixel_index)

lemma premultiply_alpha:
  assumes "4 * i + 3 < length d"
  shows "premultiply d ! (4 * i + 3) = d ! (4 * i + 3)"
  using assms by (simp add: premultiply_def)

lemma unpremultiply_colour:
  assumes "4 * i + 3 < length d" "j < 3"
  shows "unpremultiply d ! (4 * i + j) = unpremul (d ! (4 * i + j)) (d ! (4 * i + 3))"
  using assms by (simp add: unpremultiply_def pixel_index)

lemma unpremultiply_alpha:
  assumes "4 * i + 3 < length d"
  shows "unpremultiply d ! (4 * i + 3) = d ! (4 * i + 3)"
  using assms by (simp add: unpremultiply_def)

lemma premultiply_opaque:
  assumes "\<forall>k < length d. k mod 4 = 3 \<longrightarrow> d ! k = 255"
  shows "premultiply d = d"
proof (rule nth_equalityI)
  show "length (premultiply d) = length d" by simp
next
  fix k assume "k < length (premultiply d)"
  then have k: "k < length d" by simp
  have "(4 * (k div 4) + 3) mod 4 = 3" by presburger
  with assms have "4 * (k div 4) + 3 < length d \<Longrightarrow> d ! (4 * (k div 4) + 3) = 255" by blast
  with k show "premultiply d ! k = d ! k" by (simp add: premultiply_def)
qed

lemma unpremultiply_opaque:
  assumes "\<forall>k < length d. k mod 4 = 3 \<longrightarrow> d ! k = 255"
  shows "unpremultiply d = d"
proof (rule nth_equalityI)
  show "length (unpremultiply d) = length d" by simp
next
  fix k assume "k < length (unpremultiply d)"
  then have k: "k < length d" by simp
  have "(4 * (k div 4) + 3) mod 4 = 3" by presburger
  with assms have "4 * (k div 4) + 3 < length d \<Longrightarrow> d ! (4 * (k div 4) + 3) = 255" by blast
  with k show "unpremultiply d ! k = d ! k" by (simp add: unpremultiply_def)
qed

lemma source_over_transparent:
  assumes "length s = 4 * n"
  shows "source_over s (replicate (4 * n) 0) = s"
proof (rule nth_equalityI)
  show "length (source_over s (replicate (4 * n) 0)) = length s" using assms by simp
next
  fix k assume "k < length (source_over s (replicate (4 * n) 0))"
  then have k: "k < 4 * n" by simp
  then have "4 * (k div 4) + 3 < 4 * n" by presburger
  with k assms show "source_over s (replicate (4 * n) 0) ! k = s ! k"
    by (simp add: source_over_def)
qed

section \<open>The pixel loops\<close>

lemma length_ta_set [simp]: "length (ta_set a k v) = length a"
  by (simp add: ta_set_def)

lemma nth_ta_set: "ta_set a k v ! j = (if j = k \<and> k < length a then v else a ! j)"
  by (simp add: ta_set_def)

lemma length_mask_loop [simp]: "length (mask_loop m i d) = length d"
  by (induction m i d rule: mask_loop.induct) (subst mask_loop.simps, simp add: Let_def)

lemma length_alpha_loop [simp]: "length (alpha_loop m i d) = length d"
  by (induction m i d rule: alpha_loop.induct) (subst alpha_loop.simps, simp)

lemma mask_loop_below: "k < 4 * i \<Longrightarrow> mask_loop m i d ! k = d ! k"
proof (induction m i d rule: mask_loop.induct)
  case (1 m i d)
  show ?case
  proof (cases "i < length m")
    case True
    with 1 show ?thesis
      by (subst mask_loop.simps) (simp add: Let_def nth_ta_set)
  next
    case False
    then show ?thesis by (subst mask_loop.simps) simp
  qed
qed

lemma mask_loop_pixel:
  "i \<le> j \<Longrightarrow> j < length m \<Longrightarrow> 4 * j + 3 < length d \<Longrightarrow>
   mask_loop m i d ! (4 * j) = m ! j \<and> mask_loop m i d ! (4 * j + 1) = m ! j \<and>
   mask_loop m i d ! (4 * j + 2) = m ! j \<and> mask_loop m i d ! (4 * j + 3) = 255"
proof (induction m i d rule: mask_loop.induct)
  case (1 m i d)
  from 1(3) 1(2) have il: "i < length m" by simp
  show ?case
  proof (cases "i = j")
    case True
    then show ?thesis using il 1(4)
      by (subst (1 2 3 4) mask_loop.simps) (simp add: Let_def mask_loop_below nth_ta_set)
  next
    case False
    with 1(2) have "i + 1 \<le> j" by simp
    from 1(1)[OF il refl refl refl refl refl this 1(3)] 1(4) il
    show ?thesis
      by (subst (1 2 3 4) mask_loop.simps) (simp add: Let_def)
  qed
qed

lemma alpha_loop_other:
  "(\<forall>j. j < length m \<longrightarrow> k \<noteq> 4 * j + 3) \<or> k < 4 * i \<Longrightarrow> alpha_loop m i d ! k = d ! k"
proof (induction m i d rule: alpha_loop.induct)
  case (1 m i d)
  show ?case
  proof (cases "i < length m")
    case True
    with 1 show ?thesis
      by (subst alpha_loop.simps) (auto simp add: nth_ta_set)
  next
    case False
    then show ?thesis by (subst alpha_loop.simps) simp
  qed
qed

lemma alpha_loop_alpha:
  "i \<le> j \<Longrightarrow> j < length m \<Longrightarrow> 4 * j + 3 < length d \<Longrightarrow> alpha_loop m i d ! (4 * j + 3) = m ! j"
proof (induction m i d rule: alpha_loop.induct)
  case (1 m i d)
  from 1(3) 1(2) have il: "i < length m" by simp
  show ?case
  proof (cases "i = j")
    case True
    then show ?thesis using il 1(4)
      by (subst alpha_loop.simps) (simp add: alpha_loop_other nth_ta_set)
  next
    case False
    with 1(2) have "i + 1 \<le> j" by simp
    from 1(1)[OF il this 1(3)] 1(4) il
    show ?thesis
      by (subst alpha_loop.simps) simp
  qed
qed

lemma mask_loop_checked_eq:
  "4 * length m \<le> length d \<Longrightarrow> mask_loop_checked m i d = Some (mask_loop m i d)"
proof (induction m i d rule: mask_loop.induct)
  case (1 m i d)
  show ?case
  proof (cases "i < length m")
    case True
    with 1 show ?thesis
      by (subst mask_loop_checked.simps, subst mask_loop.simps)
         (simp add: Let_def ta_load_def ta_store_def ta_set_def)
  next
    case False
    then show ?thesis by (subst mask_loop_checked.simps, subst mask_loop.simps) simp
  qed
qed

lemma alpha_loop_checked_eq:
  "4 * length m \<le> length d \<Longrightarrow> alpha_loop_checked m i d = Some (alpha_loop m i d)"
proof (induction m i d rule: alpha_loop.induct)
  case (1 m i d)
  show ?case
  proof (cases "i < length m")
    case True
    with 1 show ?thesis
      by (subst alpha_loop_checked.simps, subst alpha_loop.simps)
         (simp add: ta_load_def ta_store_def ta_set_def)
  next
    case False
    then show ?thesis by (subst alpha_loop_checked.simps, subst alpha_loop.simps) simp
  qed
qed

lemma mask_loop_opaque:
  assumes "4 * length m = length d" "k < length d" "k mod 4 = 3"
  shows "mask_loop m 0 d ! k = 255"
proof -
  have k: "k = 4 * (k div 4) + 3" using assms(3) by presburger
  have "k div 4 < length m" using assms(1,2) by simp
  moreover have "4 * (k div 4) + 3 < length d" using k assms(2) by simp
  ultimately have "mask_loop m 0 d ! (4 * (k div 4) + 3) = 255"
    using mask_loop_pixel [of 0 "k div 4" m d] by simp
  with k show ?thesis by simp
qed

section \<open>The two canvases\<close>

lemma paint_mask_eq:
  assumes "length maskData = width img * height img"
  shows "paint_mask img maskData (createCanvas (width img) (height img)) =
           \<lparr>width = width img, height = height img,
            data = mask_loop maskData 0 (replicate (4 * (width img * height img)) 0)\<rparr>"
proof -
  let ?d = "mask_loop maskData 0 (replicate (4 * (width img * height img)) 0)"
  have "\<forall>k < length ?d. k mod 4 = 3 \<longrightarrow> ?d ! k = 255"
    using assms by (auto intro: mask_loop_opaque)
  then have "premultiply ?d = ?d" by (rule premultiply_opaque)
  then show ?thesis
    by (simp add: paint_mask_def createCanvas_def createImageData_def putImageData_def
        Let_def mult.assoc)
qed

lemma paint_composite_eq:
  assumes "length (data img) = 4 * (width img * height img)"
  shows "paint_composite img maskData (createCanvas (width img) (height img)) =
           \<lparr>width = width img, height = height img,
            data = premultiply (alpha_loop maskData 0
                     (unpremultiply (premultiply (data img))))\<rparr>"
proof -
  have "source_over (premultiply (data img)) (replicate (4 * (width img * height img)) 0) =
          premultiply (data img)"
    using assms by (intro source_over_transparent) simp
  then show ?thesis
    by (simp add: paint_composite_def createCanvas_def drawImage_def toCanvas_def
        getImageData_def putImageData_def Let_def mult.assoc)
qed

lemma draw_mask_eq:
  "draw_mask P img maskData w =
     (if getContext P (emits [CreateCanvas] w)
      then Inr (paint_mask img maskData (createCanvas (width img) (height img)))
      else Inl (Error ''Could not get 2d context''),
      emits [CreateCanvas, GetContext] w)"
  by (simp add: draw_mask_def Let_def emits_def)

lemma draw_composite_eq:
  "draw_composite P img maskData w =
     (if getContext P (emits [CreateCanvas] w)
      then Inr (paint_composite img maskData (createCanvas (width img) (height img)))
      else Inl (Error ''Could not get 2d context''),
      emits [CreateCanvas, GetContext] w)"
  by (simp add: draw_composite_def Let_def emits_def)

lemma emits_emits [simp]: "emits es (emits es' w) = emits (es' @ es) w"
  by (simp add: emits_def)

lemma emit_emits [simp]: "emit e (emits es w) = emits (es @ [e]) w"
  by (simp add: emits_def)

lemma compositing_eq:
  "compositing P nm img maskData w =
     (if \<not> getContext P (emits [CreateCanvas] w)
      then (Inl (Error ''Could not get 2d context''), emits [CreateCanvas, GetContext] w)
      else
        (case toBlob P (emits [CreateCanvas, GetContext] w)
                (paint_mask img maskData (createCanvas (width img) (height img))) of
           None \<Rightarrow>
             (Inl (Error ''Failed to create blob''), emits [CreateCanvas, GetContext, ToBlob] w)
         | Some maskBlob \<Rightarrow>
             if \<not> getContext P (emits [CreateCanvas, GetContext, ToBlob, CreateCanvas] w)
             then (Inl (Error ''Could not get 2d context''),
                   emits [CreateCanvas, GetContext, ToBlob, CreateCanvas, GetContext] w)
             else
               (case toBlob P
                       (emits [CreateCanvas, GetContext, ToBlob, CreateCanvas, GetContext] w)
                       (paint_composite img maskData
                          (createCanvas (width img) (height img))) of
                  None \<Rightarrow>
                    (Inl (Error ''Failed to create blob''),
                     emits [CreateCanvas, GetContext, ToBlob, CreateCanvas, GetContext,
                            ToBlob] w)
                | Some blob \<Rightarrow>
                    (Inr \<lparr>maskFile =
                            \<lparr>name = maskFileName nm, type = ''image/png'', bits = maskBlob\<rparr>,
                          processedFile =
                            \<lparr>name = processedFileName nm, type = ''image/png'',
                             bits = blob\<rparr>\<rparr>,
                     emits [CreateCanvas, GetContext, ToBlob, CreateCanvas, GetContext,
                            ToBlob] w))))"
  by (simp add: compositing_def canvas_blob_def draw_mask_eq draw_composite_eq
      split: option.splits)

section \<open>The stub runtime, evaluated\<close>

lemma demo_grants [simp]: "getContext demo_platform w"
  by (simp add: demo_platform_def)

lemma demo_encodes [simp]:
  "toBlob demo_platform w c = Some (unpremultiply (data c))"
  by (simp add: demo_platform_def getImageData_def)

lemma demo_mask_loop:
  "mask_loop [7, 9] 0 (replicate (4 * (2 * 1)) 0) = [7, 7, 7, 255, 9, 9, 9, 255]"
  by code_simp

lemma demo_premultiply: "premultiply (data demo_image) = [10, 20, 30, 255, 20, 25, 30, 128]"
  by (simp add: demo_image_def premultiply_def premul_def upt_rec)

lemma demo_read_back:
  "unpremultiply [10, 20, 30, 255, 20, 25, 30, 128] = [10, 20, 30, 255, 40, 50, 60, 128]"
  by (simp add: unpremultiply_def unpremul_def upt_rec)

lemma demo_alpha_loop:
  "alpha_loop [7, 9] 0 [10, 20, 30, 255, 40, 50, 60, 128] = [10, 20, 30, 7, 40, 50, 60, 9]"
  "alpha_loop [255, 0] 0 [10, 20, 30, 255, 40, 50, 60, 128] = [10, 20, 30, 255, 40, 50, 60, 0]"
  by code_simp+

lemma demo_store:
  "premultiply [10, 20, 30, 7, 40, 50, 60, 9] = [0, 1, 1, 7, 1, 2, 2, 9]"
  "premultiply [10, 20, 30, 255, 40, 50, 60, 0] = [10, 20, 30, 255, 0, 0, 0, 0]"
  by (simp_all add: premultiply_def premul_def upt_rec)

lemma demo_image_read:
  "unpremultiply [0, 1, 1, 7, 1, 2, 2, 9] = [0, 36, 36, 7, 28, 57, 57, 9]"
  "unpremultiply [10, 20, 30, 255, 0, 0, 0, 0] = [10, 20, 30, 255, 0, 0, 0, 0]"
  "unpremultiply [7, 7, 7, 255, 9, 9, 9, 255] = [7, 7, 7, 255, 9, 9, 9, 255]"
  by (simp_all add: unpremultiply_def unpremul_def upt_rec)

lemma demo_dims: "width demo_image = 2" "height demo_image = 1" "length (data demo_image) = 8"
  by (simp_all add: demo_image_def)

lemma demo_paint_mask:
  "paint_mask demo_image [7, 9] (createCanvas (width demo_image) (height demo_image)) =
     \<lparr>width = 2, height = 1, data = [7, 7, 7, 255, 9, 9, 9, 255]\<rparr>"
proof -
  have "length [7, 9 :: u8] = width demo_image * height demo_image"
    by (simp add: demo_dims)
  from paint_mask_eq [OF this] show ?thesis
    using demo_mask_loop by (simp add: demo_dims)
qed

lemma demo_paint_composite:
  "paint_composite demo_image [7, 9] (createCanvas (width demo_image) (height demo_image)) =
     \<lparr>width = 2, height = 1, data = [0, 1, 1, 7, 1, 2, 2, 9]\<rparr>"
  "paint_composite demo_image [255, 0] (createCanvas (width demo_image) (height demo_image)) =
     \<lparr>width = 2, height = 1, data = [10, 20, 30, 255, 0, 0, 0, 0]\<rparr>"
proof -
  have wf: "length (data demo_image) = 4 * (width demo_image * height demo_image)"
    by (simp add: demo_dims)
  show "paint_composite demo_image [7, 9] (createCanvas (width demo_image) (height demo_image)) =
     \<lparr>width = 2, height = 1, data = [0, 1, 1, 7, 1, 2, 2, 9]\<rparr>"
    using paint_composite_eq [OF wf, of "[7, 9]"]
    by (simp add: demo_premultiply demo_read_back demo_alpha_loop demo_store demo_dims)
  show "paint_composite demo_image [255, 0] (createCanvas (width demo_image) (height demo_image)) =
     \<lparr>width = 2, height = 1, data = [10, 20, 30, 255, 0, 0, 0, 0]\<rparr>"
    using paint_composite_eq [OF wf, of "[255, 0]"]
    by (simp add: demo_premultiply demo_read_back demo_alpha_loop demo_store demo_dims)
qed

section \<open>The mask and the composite image\<close>

text \<open>
  Claim C1. \<open>draw_mask\<close> yields the mask canvas when the context is granted and
  rejects otherwise. For a mask of \<open>width * height\<close> entries that canvas has the
  dimensions of the image and four bytes for each of its \<open>width * height\<close> pixels;
  pixel \<open>i\<close> has red, green and blue equal to \<open>maskData ! i\<close> and alpha 255, and
  the canvas reads back as it is. The mask file of a successful compositing step carries
  the bytes \<open>toBlob\<close> made of this canvas, and the step succeeds, with that mask file,
  whenever both contexts are granted and both blobs are made.
\<close>

theorem mask_image_grayscale:
  assumes len: "length maskData = width img * height img"
    and c: "c = paint_mask img maskData (createCanvas (width img) (height img))"
  shows "draw_mask P img maskData w =
           (if getContext P (emits [CreateCanvas] w) then Inr c
            else Inl (Error ''Could not get 2d context''),
            emits [CreateCanvas, GetContext] w) \<and>
         width c = width img \<and> height c = height img \<and>
         length (data c) = 4 * (width img * height img) \<and>
         (\<forall>i < width img * height img.
            data c ! (4 * i) = maskData ! i \<and> data c ! (4 * i + 1) = maskData ! i \<and>
            data c ! (4 * i + 2) = maskData ! i \<and> data c ! (4 * i + 3) = 255) \<and>
         data (getImageData c (width img) (height img)) = data c \<and>
         (\<forall>r w'. compositing P nm img maskData w = (Inr r, w') \<longrightarrow>
            toBlob P (emits [CreateCanvas, GetContext] w) c = Some (bits (maskFile r))) \<and>
         (\<forall>maskBlob blob.
            getContext P (emits [CreateCanvas] w) \<and>
            toBlob P (emits [CreateCanvas, GetContext] w) c = Some maskBlob \<and>
            getContext P (emits [CreateCanvas, GetContext, ToBlob, CreateCanvas] w) \<and>
            toBlob P (emits [CreateCanvas, GetContext, ToBlob, CreateCanvas, GetContext] w)
              (paint_composite img maskData (createCanvas (width img) (height img))) =
              Some blob \<longrightarrow>
            (\<exists>r w'. compositing P nm img maskData w = (Inr r, w') \<and>
               maskFile r =
                 \<lparr>name = maskFileName nm, type = ''image/png'', bits = maskBlob\<rparr>))"
proof -
  let ?d = "replicate (4 * (width img * height img)) (0 :: u8)"
  from paint_mask_eq [OF len] c
  have ceq: "c = \<lparr>width = width img, height = height img, data = mask_loop maskData 0 ?d\<rparr>"
    by simp
  have px: "mask_loop maskData 0 ?d ! (4 * i) = maskData ! i \<and>
          mask_loop maskData 0 ?d ! (4 * i + 1) = maskData ! i \<and>
          mask_loop maskData 0 ?d ! (4 * i + 2) = maskData ! i \<and>
          mask_loop maskData 0 ?d ! (4 * i + 3) = 255"
    if i: "i < width img * height img" for i
  proof -
    from i have "4 * i + 3 < length ?d" by simp
    with i len show ?thesis by (intro mask_loop_pixel) simp_all
  qed
  have "\<forall>k < length (mask_loop maskData 0 ?d). k mod 4 = 3 \<longrightarrow> mask_loop maskData 0 ?d ! k = 255"
    using len by (auto intro: mask_loop_opaque)
  then have rb: "unpremultiply (mask_loop maskData 0 ?d) = mask_loop maskData 0 ?d"
    by (rule unpremultiply_opaque)
  have 1: "draw_mask P img maskData w =
           (if getContext P (emits [CreateCanvas] w) then Inr c
            else Inl (Error ''Could not get 2d context''),
            emits [CreateCanvas, GetContext] w)"
    by (simp add: draw_mask_eq c)
  have 2: "width c = width img \<and> height c = height img \<and>
         length (data c) = 4 * (width img * height img) \<and>
         (\<forall>i < width img * height img.
            data c ! (4 * i) = maskData ! i \<and> data c ! (4 * i + 1) = maskData ! i \<and>
            data c ! (4 * i + 2) = maskData ! i \<and> data c ! (4 * i + 3) = 255) \<and>
         data (getImageData c (width img) (height img)) = data c"
    using px by (simp add: ceq getImageData_def rb)
  have 3: "toBlob P (emits [CreateCanvas, GetContext] w) c = Some (bits (maskFile r))"
    if "compositing P nm img maskData w = (Inr r, w')" for r w'
    using that unfolding compositing_eq c
    by (auto split: if_splits option.splits)
  have 4: "\<exists>r w'. compositing P nm img maskData w = (Inr r, w') \<and>
               maskFile r =
                 \<lparr>name = maskFileName nm, type = ''image/png'', bits = maskBlob\<rparr>"
    if "getContext P (emits [CreateCanvas] w) \<and>
        toBlob P (emits [CreateCanvas, GetContext] w) c = Some maskBlob \<and>
        getContext P (emits [CreateCanvas, GetContext, ToBlob, CreateCanvas] w) \<and>
        toBlob P (emits [CreateCanvas, GetContext, ToBlob, CreateCanvas, GetContext] w)
          (paint_composite img maskData (createCanvas (width img) (height img))) =
          Some blob" for maskBlob blob
    using that unfolding compositing_eq c by simp
  from 1 2 3 4 show ?thesis by blast
qed

theorem mask_image_grayscale_witness:
  "length [7, 9 :: u8] = width demo_image * height demo_image \<and>
   draw_mask demo_platform demo_image [7, 9] demo_world =
     (Inr \<lparr>width = 2, height = 1, data = [7, 7, 7, 255, 9, 9, 9, 255]\<rparr>,
      emits [CreateCanvas, GetContext] demo_world) \<and>
   [7, 7, 7, 255, 9, 9, 9, 255 :: u8] ! (4 * 1 + 2) = [7, 9] ! 1 \<and>
   (\<exists>r w'. compositing demo_platform ''cat.png'' demo_image [7, 9] demo_world = (Inr r, w') \<and>
      maskFile r =
        \<lparr>name = maskFileName ''cat.png'', type = ''image/png'',
         bits = [7, 7, 7, 255, 9, 9, 9, 255]\<rparr>)"
proof -
  let ?c = "\<lparr>width = 2, height = 1, data = [7, 7, 7, 255, 9, 9, 9, 255 :: u8]\<rparr>"
  have len: "length [7, 9 :: u8] = width demo_image * height demo_image"
    by (simp add: demo_dims)
  have c: "?c = paint_mask demo_image [7, 9]
                  (createCanvas (width demo_image) (height demo_image))"
    by (simp add: demo_paint_mask)
  note t = mask_image_grayscale [OF len c, of demo_platform demo_world "''cat.png''"]
  from t have run: "draw_mask demo_platform demo_image [7, 9] demo_world =
     (Inr ?c, emits [CreateCanvas, GetContext] demo_world)"
    by simp
  from t have px: "data ?c ! (4 * 1 + 2) = [7, 9 :: u8] ! 1"
    by (simp add: demo_dims)
  have ans: "getContext demo_platform (emits [CreateCanvas] demo_world) \<and>
        toBlob demo_platform (emits [CreateCanvas, GetContext] demo_world) ?c =
          Some [7, 7, 7, 255, 9, 9, 9, 255] \<and>
        getContext demo_platform
          (emits [CreateCanvas, GetContext, ToBlob, CreateCanvas] demo_world) \<and>
        toBlob demo_platform
          (emits [CreateCanvas, GetContext, ToBlob, CreateCanvas, GetContext] demo_world)
          (paint_composite demo_image [7, 9]
             (createCanvas (width demo_image) (height demo_image))) =
          Some [0, 36, 36, 7, 28, 57, 57, 9]"
    by (simp add: demo_image_read demo_paint_composite)
  from t ans have mf: "\<exists>r w'.
      compositing demo_platform ''cat.png'' demo_image [7, 9] demo_world = (Inr r, w') \<and>
      maskFile r =
        \<lparr>name = maskFileName ''cat.png'', type = ''image/png'',
         bits = [7, 7, 7, 255, 9, 9, 9, 255]\<rparr>"
    by blast
  from len run px mf show ?thesis by simp
qed

text \<open>
  Claim C2, amended. \<open>draw_composite\<close> yields the composite canvas when the context
  is granted and rejects otherwise. For a well-formed image and a mask of matching size,
  the loop overwrites only the alpha byte of each pixel of the image data, with
  \<open>maskData ! i\<close>. The image the canvas then shows has alpha \<open>maskData ! i\<close> at every
  pixel; its red, green and blue are the source's after the two round trips through the
  premultiplied bitmap (at the alpha of the source pixel, then at \<open>maskData ! i\<close>): the
  source's where the source pixel is opaque and \<open>maskData ! i\<close> is 255, and 0 where
  \<open>maskData ! i\<close> is 0. The composite file of a successful compositing step carries the
  bytes \<open>toBlob\<close> made of this canvas, and the step succeeds, with that file, whenever
  both contexts are granted and both blobs are made.
\<close>

theorem composite_image_alpha:
  assumes wf: "length (data img) = 4 * (width img * height img)"
    and len: "length maskData = width img * height img"
    and c: "c = paint_composite img maskData (createCanvas (width img) (height img))"
    and shown: "shown = data (getImageData c (width img) (height img))"
  shows "draw_composite P img maskData w =
           (if getContext P (emits [CreateCanvas] w) then Inr c
            else Inl (Error ''Could not get 2d context''),
            emits [CreateCanvas, GetContext] w) \<and>
         width c = width img \<and> height c = height img \<and>
         length shown = length (data img) \<and>
         (\<forall>i < width img * height img.
            shown ! (4 * i + 3) = maskData ! i \<and>
            (\<forall>j < 3. shown ! (4 * i + j) =
               unpremul (premul
                 (unpremul (premul (data img ! (4 * i + j)) (data img ! (4 * i + 3)))
                    (data img ! (4 * i + 3)))
                 (maskData ! i)) (maskData ! i)) \<and>
            (data img ! (4 * i + 3) = 255 \<and> maskData ! i = 255 \<longrightarrow>
               (\<forall>j < 3. shown ! (4 * i + j) = data img ! (4 * i + j))) \<and>
            (maskData ! i = 0 \<longrightarrow> (\<forall>j < 3. shown ! (4 * i + j) = 0))) \<and>
         (\<forall>d k. k mod 4 \<noteq> 3 \<longrightarrow> alpha_loop maskData 0 d ! k = d ! k) \<and>
         (\<forall>d i. i < length maskData \<and> 4 * i + 3 < length d \<longrightarrow>
            alpha_loop maskData 0 d ! (4 * i + 3) = maskData ! i) \<and>
         (\<forall>r w'. compositing P nm img maskData w = (Inr r, w') \<longrightarrow>
            toBlob P (emits [CreateCanvas, GetContext, ToBlob, CreateCanvas, GetContext] w) c =
              Some (bits (processedFile r))) \<and>
         (\<forall>maskBlob blob.
            getContext P (emits [CreateCanvas] w) \<and>
            toBlob P (emits [CreateCanvas, GetContext] w)
              (paint_mask img maskData (createCanvas (width img) (height img))) =
              Some maskBlob \<and>
            getContext P (emits [CreateCanvas, GetContext, ToBlob, CreateCanvas] w) \<and>
            toBlob P (emits [CreateCanvas, GetContext, ToBlob, CreateCanvas, GetContext] w) c =
              Some blob \<longrightarrow>
            (\<exists>r w'. compositing P nm img maskData w = (Inr r, w') \<and>
               processedFile r =
                 \<lparr>name = processedFileName nm, type = ''image/png'', bits = blob\<rparr>))"
proof -
  let ?rb = "unpremultiply (premultiply (data img))"
  let ?d = "alpha_loop maskData 0 ?rb"
  from paint_composite_eq [OF wf] c
  have ceq: "c = \<lparr>width = width img, height = height img, data = premultiply ?d\<rparr>"
    by simp
  have sh: "shown = unpremultiply (premultiply ?d)"
    by (simp add: shown ceq getImageData_def)
  have other: "alpha_loop maskData 0 d ! k = d ! k" if "k mod 4 \<noteq> 3" for d k
  proof (rule alpha_loop_other, rule disjI1, intro allI impI)
    fix j show "k \<noteq> 4 * j + 3" using that by auto
  qed
  have alpha: "alpha_loop maskData 0 d ! (4 * i + 3) = maskData ! i"
    if "i < length maskData \<and> 4 * i + 3 < length d" for d i
    using that by (intro alpha_loop_alpha) simp_all
  have px: "shown ! (4 * i + 3) = maskData ! i \<and>
            (\<forall>j < 3. shown ! (4 * i + j) =
               unpremul (premul
                 (unpremul (premul (data img ! (4 * i + j)) (data img ! (4 * i + 3)))
                    (data img ! (4 * i + 3)))
                 (maskData ! i)) (maskData ! i))"
    if i: "i < width img * height img" for i
  proof -
    from i wf have b: "4 * i + 3 < length (data img)" by simp
    then have b1: "4 * i + 3 < length (premultiply (data img))" "4 * i + 3 < length ?rb"
      "4 * i + 3 < length ?d" "4 * i + 3 < length (premultiply ?d)"
      by simp_all
    have a: "?d ! (4 * i + 3) = maskData ! i"
      using i len b1(2) by (intro alpha) simp
    have "shown ! (4 * i + 3) = maskData ! i"
      using b1 a by (simp add: sh unpremultiply_alpha premultiply_alpha)
    moreover have "shown ! (4 * i + j) =
               unpremul (premul
                 (unpremul (premul (data img ! (4 * i + j)) (data img ! (4 * i + 3)))
                    (data img ! (4 * i + 3)))
                 (maskData ! i)) (maskData ! i)" if j: "j < 3" for j
    proof -
      have "(4 * i + j) mod 4 \<noteq> 3" using j by presburger
      then have "?d ! (4 * i + j) = ?rb ! (4 * i + j)" by (rule other)
      also have "\<dots> = unpremul (premul (data img ! (4 * i + j)) (data img ! (4 * i + 3)))
                    (data img ! (4 * i + 3))"
        using b b1 j
        by (simp add: unpremultiply_colour unpremultiply_alpha premultiply_colour
            premultiply_alpha)
      finally show ?thesis
        using b1 j a
        by (simp add: sh unpremultiply_colour unpremultiply_alpha premultiply_colour
            premultiply_alpha)
    qed
    ultimately show ?thesis by blast
  qed
  have 1: "draw_composite P img maskData w =
           (if getContext P (emits [CreateCanvas] w) then Inr c
            else Inl (Error ''Could not get 2d context''),
            emits [CreateCanvas, GetContext] w)"
    by (simp add: draw_composite_eq c)
  have 2: "width c = width img \<and> height c = height img \<and> length shown = length (data img)"
    by (simp add: ceq sh)
  have 3: "\<forall>i < width img * height img.
            shown ! (4 * i + 3) = maskData ! i \<and>
            (\<forall>j < 3. shown ! (4 * i + j) =
               unpremul (premul
                 (unpremul (premul (data img ! (4 * i + j)) (data img ! (4 * i + 3)))
                    (data img ! (4 * i + 3)))
                 (maskData ! i)) (maskData ! i)) \<and>
            (data img ! (4 * i + 3) = 255 \<and> maskData ! i = 255 \<longrightarrow>
               (\<forall>j < 3. shown ! (4 * i + j) = data img ! (4 * i + j))) \<and>
            (maskData ! i = 0 \<longrightarrow> (\<forall>j < 3. shown ! (4 * i + j) = 0))"
  proof (intro allI impI)
    fix i assume "i < width img * height img"
    from px [OF this] show "shown ! (4 * i + 3) = maskData ! i \<and>
            (\<forall>j < 3. shown ! (4 * i + j) =
               unpremul (premul
                 (unpremul (premul (data img ! (4 * i + j)) (data img ! (4 * i + 3)))
                    (data img ! (4 * i + 3)))
                 (maskData ! i)) (maskData ! i)) \<and>
            (data img ! (4 * i + 3) = 255 \<and> maskData ! i = 255 \<longrightarrow>
               (\<forall>j < 3. shown ! (4 * i + j) = data img ! (4 * i + j))) \<and>
            (maskData ! i = 0 \<longrightarrow> (\<forall>j < 3. shown ! (4 * i + j) = 0))"
      by simp
  qed
  have 4: "toBlob P (emits [CreateCanvas, GetContext, ToBlob, CreateCanvas, GetContext] w) c =
              Some (bits (processedFile r))"
    if "compositing P nm img maskData w = (Inr r, w')" for r w'
    using that unfolding compositing_eq c
    by (auto split: if_splits option.splits)
  have 5: "\<exists>r w'. compositing P nm img maskData w = (Inr r, w') \<and>
               processedFile r =
                 \<lparr>name = processedFileName nm, type = ''image/png'', bits = blob\<rparr>"
    if "getContext P (emits [CreateCanvas] w) \<and>
        toBlob P (emits [CreateCanvas, GetContext] w)
          (paint_mask img maskData (createCanvas (width img) (height img))) =
          Some maskBlob \<and>
        getContext P (emits [CreateCanvas, GetContext, ToBlob, CreateCanvas] w) \<and>
        toBlob P (emits [CreateCanvas, GetContext, ToBlob, CreateCanvas, GetContext] w) c =
          Some blob" for maskBlob blob
    using that unfolding compositing_eq c by simp
  from 1 2 3 other alpha 4 5 show ?thesis by blast
qed

theorem composite_image_alpha_witness:
  "length (data demo_image) = 4 * (width demo_image * height demo_image) \<and>
   length [255, 0 :: u8] = width demo_image * height demo_image \<and>
   draw_composite demo_platform demo_image [255, 0] demo_world =
     (Inr \<lparr>width = 2, height = 1, data = [10, 20, 30, 255, 0, 0, 0, 0]\<rparr>,
      emits [CreateCanvas, GetContext] demo_world) \<and>
   data (getImageData \<lparr>width = 2, height = 1, data = [10, 20, 30, 255, 0, 0, 0, 0]\<rparr> 2 1) =
     [10, 20, 30, 255, 0, 0, 0, 0] \<and>
   data demo_image ! (4 * 0 + 3) = 255 \<and> [255, 0 :: u8] ! 0 = 255 \<and>
   [10, 20, 30, 255, 0, 0, 0, 0 :: u8] ! (4 * 0 + 1) = data demo_image ! (4 * 0 + 1) \<and>
   [255, 0 :: u8] ! 1 = 0 \<and>
   [10, 20, 30, 255, 0, 0, 0, 0 :: u8] ! (4 * 1 + 1) = 0 \<and>
   [10, 20, 30, 255, 0, 0, 0, 0 :: u8] ! (4 * 1 + 3) = [255, 0] ! 1 \<and>
   (\<exists>r w'. compositing demo_platform ''cat.png'' demo_image [255, 0] demo_world = (Inr r, w') \<and>
      processedFile r =
        \<lparr>name = processedFileName ''cat.png'', type = ''image/png'',
         bits = [10, 20, 30, 255, 0, 0, 0, 0]\<rparr>)"
proof -
  let ?c = "\<lparr>width = 2, height = 1, data = [10, 20, 30, 255, 0, 0, 0, 0 :: u8]\<rparr>"
  let ?shown = "[10, 20, 30, 255, 0, 0, 0, 0 :: u8]"
  have wf: "length (data demo_image) = 4 * (width demo_image * height demo_image)"
    by (simp add: demo_dims)
  have len: "length [255, 0 :: u8] = width demo_image * height demo_image"
    by (simp add: demo_dims)
  have c: "?c = paint_composite demo_image [255, 0]
                  (createCanvas (width demo_image) (height demo_image))"
    by (simp add: demo_paint_composite)
  have shown: "?shown = data (getImageData ?c (width demo_image) (height demo_image))"
    by (simp add: getImageData_def demo_image_read)
  note t = composite_image_alpha [OF wf len c shown, of demo_platform demo_world "''cat.png''"]
  from t have run: "draw_composite demo_platform demo_image [255, 0] demo_world =
     (Inr ?c, emits [CreateCanvas, GetContext] demo_world)"
    by simp
  have src: "data demo_image ! (4 * 0 + 3) = 255" "[255, 0 :: u8] ! 0 = 255"
    "[255, 0 :: u8] ! 1 = 0"
    by (simp_all add: demo_image_def)
  note px = t [THEN conjunct2, THEN conjunct2, THEN conjunct2, THEN conjunct2,
    THEN conjunct1, rule_format]
  have "0 < width demo_image * height demo_image" by (simp add: demo_dims)
  from px [OF this] src
  have "\<forall>j < 3. ?shown ! (4 * 0 + j) = data demo_image ! (4 * 0 + j)"
    by blast
  from this [rule_format, of 1] have kept: "?shown ! (4 * 0 + 1) = data demo_image ! (4 * 0 + 1)"
    by simp
  have one: "1 < width demo_image * height demo_image" by (simp add: demo_dims)
  from px [OF one] have al: "?shown ! (4 * 1 + 3) = [255, 0 :: u8] ! 1"
    by blast
  from px [OF one] src have "\<forall>j < 3. ?shown ! (4 * 1 + j) = 0"
    by blast
  from this [rule_format, of 1] have zero: "?shown ! (4 * 1 + 1) = 0"
    by simp
  have mask: "paint_mask demo_image [255, 0]
      (createCanvas (width demo_image) (height demo_image)) =
      \<lparr>width = 2, height = 1,
       data = mask_loop [255, 0] 0 (replicate (4 * (width demo_image * height demo_image)) 0)\<rparr>"
    using paint_mask_eq [OF len] by (simp add: demo_dims)
  have ans: "getContext demo_platform (emits [CreateCanvas] demo_world) \<and>
        toBlob demo_platform (emits [CreateCanvas, GetContext] demo_world)
          (paint_mask demo_image [255, 0]
             (createCanvas (width demo_image) (height demo_image))) =
          Some (unpremultiply (mask_loop [255, 0] 0
            (replicate (4 * (width demo_image * height demo_image)) 0))) \<and>
        getContext demo_platform
          (emits [CreateCanvas, GetContext, ToBlob, CreateCanvas] demo_world) \<and>
        toBlob demo_platform
          (emits [CreateCanvas, GetContext, ToBlob, CreateCanvas, GetContext] demo_world) ?c =
          Some ?shown"
    by (simp add: demo_image_read mask)
  from t ans have pf: "\<exists>r w'.
      compositing demo_platform ''cat.png'' demo_image [255, 0] demo_world = (Inr r, w') \<and>
      processedFile r =
        \<lparr>name = processedFileName ''cat.png'', type = ''image/png'', bits = ?shown\<rparr>"
    by blast
  from wf len run shown src kept zero al pf show ?thesis by (simp add: demo_dims)
qed

text \<open>
  Claim C2 as stated fails. On the two-pixel image with the mask \<open>[7, 9]\<close> the
  composite canvas keeps \<open>[0, 1, 1, 7, 1, 2, 2, 9]\<close> and shows
  \<open>[0, 36, 36, 7, 28, 57, 57, 9]\<close>: the alpha bytes are the mask, but the red byte of
  pixel 0 is 0 where the source has 10.
\<close>

theorem composite_rgb_not_kept:
  "length (data demo_image) = 4 * (width demo_image * height demo_image) \<and>
   length [7, 9 :: u8] = width demo_image * height demo_image \<and>
   data demo_image = [10, 20, 30, 255, 40, 50, 60, 128] \<and>
   draw_composite demo_platform demo_image [7, 9] demo_world =
     (Inr \<lparr>width = 2, height = 1, data = [0, 1, 1, 7, 1, 2, 2, 9]\<rparr>,
      emits [CreateCanvas, GetContext] demo_world) \<and>
   data (getImageData \<lparr>width = 2, height = 1, data = [0, 1, 1, 7, 1, 2, 2, 9]\<rparr> 2 1) =
     [0, 36, 36, 7, 28, 57, 57, 9] \<and>
   [0, 36, 36, 7, 28, 57, 57, 9 :: u8] ! (4 * 0) \<noteq> data demo_image ! (4 * 0) \<and>
   [0, 1, 1, 7, 1, 2, 2, 9 :: u8] ! (4 * 0) \<noteq> data demo_image ! (4 * 0)"
proof -
  have run: "draw_composite demo_platform demo_image [7, 9] demo_world =
     (Inr \<lparr>width = 2, height = 1, data = [0, 1, 1, 7, 1, 2, 2, 9]\<rparr>,
      emits [CreateCanvas, GetContext] demo_world)"
    unfolding draw_composite_eq demo_paint_composite by simp
  have rb: "data (getImageData \<lparr>width = 2, height = 1, data = [0, 1, 1, 7, 1, 2, 2, 9]\<rparr> 2 1) =
     [0, 36, 36, 7, 28, 57, 57, 9]"
    by (simp add: getImageData_def demo_image_read)
  have src: "data demo_image = [10, 20, 30, 255, 40, 50, 60, 128]"
    by (simp add: demo_image_def)
  from run rb src show ?thesis by (simp add: demo_dims)
qed

text \<open>
  Claim C9. With a mask of \<open>width * height\<close> entries, both loops run to their
  end under checked accesses and compute what the unchecked loops compute: every load
  \<open>maskData[i]\<close> and every store at \<open>4 * i\<close> to \<open>4 * i + 3\<close> falls inside its
  array, each pixel array having \<open>4 * width * height\<close> bytes.
\<close>

theorem pixel_loops_in_bounds:
  assumes wf: "length (data img) = 4 * (width img * height img)"
    and len: "length maskData = width img * height img"
  shows "length (data (createImageData (width img) (height img))) = 4 * (width img * height img) \<and>
         mask_loop_checked maskData 0 (data (createImageData (width img) (height img))) =
           Some (mask_loop maskData 0 (data (createImageData (width img) (height img)))) \<and>
         length (data (getImageData (drawImage (createCanvas (width img) (height img))
                   (toCanvas img)) (width img) (height img))) = 4 * (width img * height img) \<and>
         alpha_loop_checked maskData 0
           (data (getImageData (drawImage (createCanvas (width img) (height img)) (toCanvas img))
              (width img) (height img))) =
           Some (alpha_loop maskData 0
             (data (getImageData (drawImage (createCanvas (width img) (height img))
                (toCanvas img)) (width img) (height img))))"
proof -
  let ?p = "data (getImageData (drawImage (createCanvas (width img) (height img))
             (toCanvas img)) (width img) (height img))"
  have m: "4 * length maskData \<le> length (data (createImageData (width img) (height img)))"
    using len by (simp add: createImageData_def mult.assoc)
  have a: "length ?p = 4 * (width img * height img)"
    by (simp add: getImageData_def drawImage_def createCanvas_def mult.assoc)
  then have "4 * length maskData \<le> length ?p" using len by simp
  from alpha_loop_checked_eq [OF this] mask_loop_checked_eq [OF m] a show ?thesis
    by (simp add: createImageData_def mult.assoc)
qed

lemma demo_drawn:
  "data (getImageData (drawImage (createCanvas (width demo_image) (height demo_image))
     (toCanvas demo_image)) (width demo_image) (height demo_image)) =
   [10, 20, 30, 255, 40, 50, 60, 128]"
proof -
  have "length (premultiply (data demo_image)) = 4 * (width demo_image * height demo_image)"
    by (simp add: demo_dims)
  from source_over_transparent [OF this] show ?thesis
    by (simp add: getImageData_def drawImage_def toCanvas_def createCanvas_def putImageData_def
        mult.assoc demo_premultiply demo_read_back)
qed

theorem pixel_loops_in_bounds_witness:
  "length (data demo_image) = 4 * (width demo_image * height demo_image) \<and>
   length [7, 9 :: u8] = width demo_image * height demo_image \<and>
   mask_loop_checked [7, 9] 0 (data (createImageData 2 1)) =
     Some [7, 7, 7, 255, 9, 9, 9, 255] \<and>
   alpha_loop_checked [7, 9] 0
     (data (getImageData (drawImage (createCanvas 2 1) (toCanvas demo_image)) 2 1)) =
     Some [10, 20, 30, 7, 40, 50, 60, 9]"
proof -
  have wf: "length (data demo_image) = 4 * (width demo_image * height demo_image)"
    by (simp add: demo_dims)
  have len: "length [7, 9 :: u8] = width demo_image * height demo_image"
    by (simp add: demo_dims)
  have m: "mask_loop [7, 9] 0 (data (createImageData (width demo_image) (height demo_image))) =
      [7, 7, 7, 255, 9, 9, 9, 255]"
    using demo_mask_loop by (simp add: createImageData_def demo_dims)
  note t = pixel_loops_in_bounds [OF wf len]
  from t have 1: "mask_loop_checked [7, 9] 0
      (data (createImageData (width demo_image) (height demo_image))) =
      Some [7, 7, 7, 255, 9, 9, 9, 255]"
    unfolding m by blast
  from t have 2: "alpha_loop_checked [7, 9] 0
     (data (getImageData (drawImage (createCanvas (width demo_image) (height demo_image))
        (toCanvas demo_image)) (width demo_image) (height demo_image))) =
     Some [10, 20, 30, 7, 40, 50, 60, 9]"
    unfolding demo_drawn demo_alpha_loop by blast
  from wf len 1 2 show ?thesis by (simp add: demo_dims)
qed

section \<open>The result of processImage\<close>

lemma split_not_Nil [simp]: "split sep s \<noteq> []"
  by (induction s) (auto split: list.splits)

lemma first_split: "first (split sep s) = takeWhile (\<lambda>c. c \<noteq> sep) s"
  by (induction s) (auto split: list.splits)

lemma processImage_Inr:
  assumes "processImage P st w f = (Inr r, w')"
  shows "\<exists>m p img maskData w0.
           model st = Some m \<and> processor st = Some p \<and> fromURL P f = Inr img \<and>
           predict_mask P m p img (emit FromURL w) = (Inr maskData, w0) \<and>
           compositing P (name f) img maskData w0 = (Inr r, w')"
  using assms
  by (auto simp: processImage_def process_try_def
      split: prod.splits sum.splits option.splits)

lemma processImage_eq:
  assumes "model st = Some m" "processor st = Some p" "fromURL P f = Inr img"
    and "predict_mask P m p img (emit FromURL w) = (Inr maskData, w0)"
  shows "processImage P st w f =
           (case compositing P (name f) img maskData w0 of
              (Inl error, w1) \<Rightarrow>
                (Inl (Error ''Failed to process image''),
                 emit (ConsoleError ''Error processing image:'' error) w1)
            | (Inr r, w1) \<Rightarrow> (Inr r, w1))"
  using assms by (simp add: processImage_def process_try_def)

lemma demo_state_eq:
  "demo_state =
     \<lparr>model = Some (\<lambda>_. Inr [7, 9]), processor = Some (\<lambda>_. Inr ()),
      currentModelId = MODEL_ID\<rparr>"
  by (simp add: demo_state_def initializeModel_def demo_platform_def state_def Let_def)

lemma demo_predict:
  "predict_mask demo_platform (\<lambda>_. Inr [7, 9]) (\<lambda>_. Inr ()) img w =
     (Inr [7, 9], emits [CallProcessor, CallModel, ResizeMask] w)"
  by (simp add: predict_mask_def demo_platform_def Let_def emits_def)

lemma demo_compositing:
  "compositing demo_platform nm demo_image [7, 9] w =
     (Inr \<lparr>maskFile = \<lparr>name = maskFileName nm, type = ''image/png'',
                      bits = [7, 7, 7, 255, 9, 9, 9, 255]\<rparr>,
          processedFile = \<lparr>name = processedFileName nm, type = ''image/png'',
                      bits = [0, 36, 36, 7, 28, 57, 57, 9]\<rparr>\<rparr>,
      emits [CreateCanvas, GetContext, ToBlob, CreateCanvas, GetContext, ToBlob] w)"
  unfolding compositing_eq demo_paint_mask demo_paint_composite
  by (simp add: demo_image_read)

lemma demo_fromURL [simp]: "fromURL demo_platform f = Inr demo_image"
  by (simp add: demo_platform_def)

lemma demo_processImage:
  "processImage demo_platform demo_state w f =
     (Inr \<lparr>maskFile = \<lparr>name = maskFileName (name f), type = ''image/png'',
                      bits = [7, 7, 7, 255, 9, 9, 9, 255]\<rparr>,
          processedFile = \<lparr>name = processedFileName (name f), type = ''image/png'',
                      bits = [0, 36, 36, 7, 28, 57, 57, 9]\<rparr>\<rparr>,
      emits [FromURL, CallProcessor, CallModel, ResizeMask,
             CreateCanvas, GetContext, ToBlob, CreateCanvas, GetContext, ToBlob] w)"
proof -
  have "predict_mask demo_platform (\<lambda>_. Inr [7, 9]) (\<lambda>_. Inr ()) demo_image (emit FromURL w) =
     (Inr [7, 9], emits [FromURL, CallProcessor, CallModel, ResizeMask] w)"
    by (simp add: demo_predict emit_as_emits)
  from processImage_eq [of demo_state _ _ demo_platform f demo_image w, OF _ _ _ this]
  show ?thesis
    by (simp add: demo_state_eq demo_compositing)
qed

lemma demo_names:
  "maskFileName ''cat.png'' = ''cat-mask.png''"
  "processedFileName ''cat.png'' = ''cat-bg-blasted.png''"
  "maskFileName ''my.cat.png'' = ''my-mask.png''"
  by (simp_all add: maskFileName_def processedFileName_def)

lemma compositing_Inr:
  assumes "compositing P nm img maskData w = (Inr r, w')"
  shows "\<exists>c1 w1 maskBlob c2 w2 blob.
           draw_mask P img maskData w = (Inr c1, w1) \<and>
           toBlob P w1 c1 = Some maskBlob \<and>
           draw_composite P img maskData (emit ToBlob w1) = (Inr c2, w2) \<and>
           toBlob P w2 c2 = Some blob \<and>
           r = \<lparr>maskFile = \<lparr>name = maskFileName nm, type = ''image/png'', bits = maskBlob\<rparr>,
                processedFile =
                  \<lparr>name = processedFileName nm, type = ''image/png'', bits = blob\<rparr>\<rparr> \<and>
           w' = emit ToBlob w2"
  using assms
  by (auto simp: compositing_def canvas_blob_def split: prod.splits sum.splits option.splits)

text \<open>
  Claim C5. The files of a successful \<open>processImage\<close> are named after the source
  file's name cut at its first dot, followed by \<open>-mask.png\<close> and
  \<open>-bg-blasted.png\<close>. Whenever the guard, the decoding, the prediction, both contexts
  and both blobs succeed, \<open>processImage\<close> resolves to the files with these names, and
  so does the compositing step for every name. \<open>cat.png\<close> gives \<open>cat-mask.png\<close>
  and \<open>cat-bg-blasted.png\<close>, \<open>my.cat.png\<close> gives \<open>my-mask.png\<close>.
\<close>

theorem artifact_names:
  "(\<forall>r w'. processImage P st w f = (Inr r, w') \<longrightarrow>
      name (maskFile r) = takeWhile (\<lambda>c. c \<noteq> CHR ''.'') (name f) @ ''-mask.png'' \<and>
      name (processedFile r) = takeWhile (\<lambda>c. c \<noteq> CHR ''.'') (name f) @ ''-bg-blasted.png'') \<and>
   (\<forall>m p img maskData w0 maskBlob blob.
      model st = Some m \<and> processor st = Some p \<and> fromURL P f = Inr img \<and>
      predict_mask P m p img (emit FromURL w) = (Inr maskData, w0) \<and>
      getContext P (emits [CreateCanvas] w0) \<and>
      toBlob P (emits [CreateCanvas, GetContext] w0)
        (paint_mask img maskData (createCanvas (width img) (height img))) = Some maskBlob \<and>
      getContext P (emits [CreateCanvas, GetContext, ToBlob, CreateCanvas] w0) \<and>
      toBlob P (emits [CreateCanvas, GetContext, ToBlob, CreateCanvas, GetContext] w0)
        (paint_composite img maskData (createCanvas (width img) (height img))) = Some blob \<longrightarrow>
      fst (processImage P st w f) =
        Inr \<lparr>maskFile =
               \<lparr>name = takeWhile (\<lambda>c. c \<noteq> CHR ''.'') (name f) @ ''-mask.png'',
                type = ''image/png'', bits = maskBlob\<rparr>,
             processedFile =
               \<lparr>name = takeWhile (\<lambda>c. c \<noteq> CHR ''.'') (name f) @ ''-bg-blasted.png'',
                type = ''image/png'', bits = blob\<rparr>\<rparr>) \<and>
   (\<forall>nm img maskData w0 maskBlob blob.
      getContext P (emits [CreateCanvas] w0) \<and>
      toBlob P (emits [CreateCanvas, GetContext] w0)
        (paint_mask img maskData (createCanvas (width img) (height img))) = Some maskBlob \<and>
      getContext P (emits [CreateCanvas, GetContext, ToBlob, CreateCanvas] w0) \<and>
      toBlob P (emits [CreateCanvas, GetContext, ToBlob, CreateCanvas, GetContext] w0)
        (paint_composite img maskData (createCanvas (width img) (height img))) = Some blob \<longrightarrow>
      fst (compositing P nm img maskData w0) =
        Inr \<lparr>maskFile =
               \<lparr>name = takeWhile (\<lambda>c. c \<noteq> CHR ''.'') nm @ ''-mask.png'',
                type = ''image/png'', bits = maskBlob\<rparr>,
             processedFile =
               \<lparr>name = takeWhile (\<lambda>c. c \<noteq> CHR ''.'') nm @ ''-bg-blasted.png'',
                type = ''image/png'', bits = blob\<rparr>\<rparr>) \<and>
   maskFileName ''cat.png'' = ''cat-mask.png'' \<and>
   processedFileName ''cat.png'' = ''cat-bg-blasted.png'' \<and>
   maskFileName ''my.cat.png'' = ''my-mask.png''"
proof -
  have 1: "name (maskFile r) = takeWhile (\<lambda>c. c \<noteq> CHR ''.'') (name f) @ ''-mask.png'' \<and>
        name (processedFile r) = takeWhile (\<lambda>c. c \<noteq> CHR ''.'') (name f) @ ''-bg-blasted.png''"
    if "processImage P st w f = (Inr r, w')" for r w'
  proof -
    from processImage_Inr [OF that] obtain img maskData w1
      where "compositing P (name f) img maskData w1 = (Inr r, w')" by blast
    from compositing_Inr [OF this] show ?thesis
      by (auto simp: maskFileName_def processedFileName_def first_split)
  qed
  have 3: "fst (compositing P nm img maskData w0) =
        Inr \<lparr>maskFile =
               \<lparr>name = takeWhile (\<lambda>c. c \<noteq> CHR ''.'') nm @ ''-mask.png'',
                type = ''image/png'', bits = maskBlob\<rparr>,
             processedFile =
               \<lparr>name = takeWhile (\<lambda>c. c \<noteq> CHR ''.'') nm @ ''-bg-blasted.png'',
                type = ''image/png'', bits = blob\<rparr>\<rparr>"
    if "getContext P (emits [CreateCanvas] w0) \<and>
      toBlob P (emits [CreateCanvas, GetContext] w0)
        (paint_mask img maskData (createCanvas (width img) (height img))) = Some maskBlob \<and>
      getContext P (emits [CreateCanvas, GetContext, ToBlob, CreateCanvas] w0) \<and>
      toBlob P (emits [CreateCanvas, GetContext, ToBlob, CreateCanvas, GetContext] w0)
        (paint_composite img maskData (createCanvas (width img) (height img))) = Some blob"
    for nm img maskData w0 maskBlob blob
    using that unfolding compositing_eq
    by (simp add: maskFileName_def processedFileName_def first_split)
  have 2: "fst (processImage P st w f) =
        Inr \<lparr>maskFile =
               \<lparr>name = takeWhile (\<lambda>c. c \<noteq> CHR ''.'') (name f) @ ''-mask.png'',
                type = ''image/png'', bits = maskBlob\<rparr>,
             processedFile =
               \<lparr>name = takeWhile (\<lambda>c. c \<noteq> CHR ''.'') (name f) @ ''-bg-blasted.png'',
                type = ''image/png'', bits = blob\<rparr>\<rparr>"
    if h: "model st = Some m \<and> processor st = Some p \<and> fromURL P f = Inr img \<and>
      predict_mask P m p img (emit FromURL w) = (Inr maskData, w0) \<and>
      getContext P (emits [CreateCanvas] w0) \<and>
      toBlob P (emits [CreateCanvas, GetContext] w0)
        (paint_mask img maskData (createCanvas (width img) (height img))) = Some maskBlob \<and>
      getContext P (emits [CreateCanvas, GetContext, ToBlob, CreateCanvas] w0) \<and>
      toBlob P (emits [CreateCanvas, GetContext, ToBlob, CreateCanvas, GetContext] w0)
        (paint_composite img maskData (createCanvas (width img) (height img))) = Some blob"
    for m p img maskData w0 maskBlob blob
  proof -
    from h have c: "fst (compositing P (name f) img maskData w0) =
        Inr \<lparr>maskFile =
               \<lparr>name = takeWhile (\<lambda>c. c \<noteq> CHR ''.'') (name f) @ ''-mask.png'',
                type = ''image/png'', bits = maskBlob\<rparr>,
             processedFile =
               \<lparr>name = takeWhile (\<lambda>c. c \<noteq> CHR ''.'') (name f) @ ''-bg-blasted.png'',
                type = ''image/png'', bits = blob\<rparr>\<rparr>"
      by (intro 3) simp
    from h have "processImage P st w f =
           (case compositing P (name f) img maskData w0 of
              (Inl error, w1) \<Rightarrow>
                (Inl (Error ''Failed to process image''),
                 emit (ConsoleError ''Error processing image:'' error) w1)
            | (Inr r, w1) \<Rightarrow> (Inr r, w1))"
      by (intro processImage_eq) blast+
    with c show ?thesis
      by (cases "compositing P (name f) img maskData w0") auto
  qed
  from 1 2 3 demo_names show ?thesis by blast
qed

theorem artifact_names_witness:
  "fst (processImage demo_platform demo_state demo_world demo_file) =
     Inr \<lparr>maskFile = \<lparr>name = ''cat-mask.png'', type = ''image/png'',
                      bits = [7, 7, 7, 255, 9, 9, 9, 255]\<rparr>,
          processedFile = \<lparr>name = ''cat-bg-blasted.png'', type = ''image/png'',
                      bits = [0, 36, 36, 7, 28, 57, 57, 9]\<rparr>\<rparr> \<and>
   ''cat-mask.png'' = takeWhile (\<lambda>c. c \<noteq> CHR ''.'') (name demo_file) @ ''-mask.png'' \<and>
   fst (compositing demo_platform ''my.cat.png'' demo_image [7, 9] demo_world) =
     Inr \<lparr>maskFile = \<lparr>name = ''my-mask.png'', type = ''image/png'',
                      bits = [7, 7, 7, 255, 9, 9, 9, 255]\<rparr>,
          processedFile = \<lparr>name = ''my-bg-blasted.png'', type = ''image/png'',
                      bits = [0, 36, 36, 7, 28, 57, 57, 9]\<rparr>\<rparr>"
proof -
  note t = artifact_names [of demo_platform demo_state demo_world demo_file]
  have ans: "getContext demo_platform (emits [CreateCanvas] w0) \<and>
      toBlob demo_platform (emits [CreateCanvas, GetContext] w0)
        (paint_mask demo_image [7, 9] (createCanvas (width demo_image) (height demo_image))) =
        Some [7, 7, 7, 255, 9, 9, 9, 255] \<and>
      getContext demo_platform (emits [CreateCanvas, GetContext, ToBlob, CreateCanvas] w0) \<and>
      toBlob demo_platform (emits [CreateCanvas, GetContext, ToBlob, CreateCanvas, GetContext] w0)
        (paint_composite demo_image [7, 9]
           (createCanvas (width demo_image) (height demo_image))) =
        Some [0, 36, 36, 7, 28, 57, 57, 9]" for w0
    unfolding demo_paint_mask demo_paint_composite by (simp add: demo_image_read)
  have pre: "model demo_state = Some (\<lambda>_. Inr [7, 9]) \<and>
      processor demo_state = Some (\<lambda>_. Inr ()) \<and>
      fromURL demo_platform demo_file = Inr demo_image \<and>
      predict_mask demo_platform (\<lambda>_. Inr [7, 9]) (\<lambda>_. Inr ()) demo_image
        (emit FromURL demo_world) =
        (Inr [7, 9], emits [FromURL, CallProcessor, CallModel, ResizeMask] demo_world)"
    by (simp add: demo_state_eq demo_predict emit_as_emits)
  from t pre ans have 1: "fst (processImage demo_platform demo_state demo_world demo_file) =
     Inr \<lparr>maskFile =
            \<lparr>name = takeWhile (\<lambda>c. c \<noteq> CHR ''.'') (name demo_file) @ ''-mask.png'',
             type = ''image/png'', bits = [7, 7, 7, 255, 9, 9, 9, 255]\<rparr>,
          processedFile =
            \<lparr>name = takeWhile (\<lambda>c. c \<noteq> CHR ''.'') (name demo_file) @ ''-bg-blasted.png'',
             type = ''image/png'', bits = [0, 36, 36, 7, 28, 57, 57, 9]\<rparr>\<rparr>"
    by blast
  from t ans have 2: "fst (compositing demo_platform ''my.cat.png'' demo_image [7, 9] demo_world) =
     Inr \<lparr>maskFile =
            \<lparr>name = takeWhile (\<lambda>c. c \<noteq> CHR ''.'') ''my.cat.png'' @ ''-mask.png'',
             type = ''image/png'', bits = [7, 7, 7, 255, 9, 9, 9, 255]\<rparr>,
          processedFile =
            \<lparr>name = takeWhile (\<lambda>c. c \<noteq> CHR ''.'') ''my.cat.png'' @ ''-bg-blasted.png'',
             type = ''image/png'', bits = [0, 36, 36, 7, 28, 57, 57, 9]\<rparr>\<rparr>"
    by blast
  from 1 2 show ?thesis by (simp add: demo_file_def)
qed

lemma session_settle: "session (handleClick_settle P s k) = session s"
  by (simp add: handleClick_settle_def Let_def split: prod.splits sum.splits)

lemma initializeModel_Inl:
  assumes "initializeModel P st w = (Inl e, st', w')"
  shows "processor st' = processor st"
  using assms
  by (auto simp: initializeModel_def Let_def split: sum.splits option.splits)

text \<open>
  Claim C4. While the model or the processor handle is not set, \<open>processImage\<close>
  rejects with the error "Model not initialized. Call initializeModel() first." and
  leaves the world as it was: no collaborator is called and nothing is logged. This is
  so in the initial module state and in the state a failed \<open>initializeModel\<close> leaves.
  \<open>processImage\<close> never assigns to the module state; a settled call leaves the
  session of the whole system unchanged.
\<close>

theorem processImage_not_initialized:
  "(model st = None \<or> processor st = None \<longrightarrow>
      processImage P st w f =
        (Inl (Error ''Model not initialized. Call initializeModel() first.''), w)) \<and>
   processImage P state w f =
     (Inl (Error ''Model not initialized. Call initializeModel() first.''), w) \<and>
   (\<forall>e st' w'. initializeModel P state w0 = (Inl e, st', w') \<longrightarrow>
      processImage P st' w f =
        (Inl (Error ''Model not initialized. Call initializeModel() first.''), w)) \<and>
   session (handleClick_settle P s k) = session s"
proof -
  have a: "processImage P st w f =
        (Inl (Error ''Model not initialized. Call initializeModel() first.''), w)"
    if "model st = None \<or> processor st = None" for st :: "('a, 'b) ModelState"
    using that by (auto simp: processImage_def split: option.splits)
  have b: "processImage P st' w f =
        (Inl (Error ''Model not initialized. Call initializeModel() first.''), w)"
    if "initializeModel P state w0 = (Inl e, st', w')" for e st' w'
  proof -
    from initializeModel_Inl [OF that] have "processor st' = None"
      by (simp add: state_def)
    then show ?thesis by (simp add: a)
  qed
  have "model (state :: ('a, 'b) ModelState) = None" by (simp add: state_def)
  with a b session_settle [of P s k] show ?thesis by blast
qed

theorem processImage_not_initialized_witness:
  "(model (state :: (unit, u8 list) ModelState) = None \<or>
    processor (state :: (unit, u8 list) ModelState) = None) \<and>
   processImage demo_platform state demo_world demo_file =
     (Inl (Error ''Model not initialized. Call initializeModel() first.''), demo_world) \<and>
   fst (initializeModel offline_platform state demo_world) = Inl (Error ''fetch failed'') \<and>
   processImage offline_platform
     (fst (snd (initializeModel offline_platform state demo_world))) demo_world demo_file =
     (Inl (Error ''Model not initialized. Call initializeModel() first.''), demo_world)"
proof -
  have h: "model (state :: (unit, u8 list) ModelState) = None \<or>
    processor (state :: (unit, u8 list) ModelState) = None"
    by (simp add: state_def)
  have i: "fst (initializeModel offline_platform state demo_world) = Inl (Error ''fetch failed'')"
    by (simp add: initializeModel_def offline_platform_def Let_def)
  then obtain st' w' where
    j: "initializeModel offline_platform state demo_world = (Inl (Error ''fetch failed''), st', w')"
    by (cases "initializeModel offline_platform state demo_world") auto
  from processImage_not_initialized
         [of state demo_platform demo_world demo_file demo_world] h
  have 1: "processImage demo_platform state demo_world demo_file =
     (Inl (Error ''Model not initialized. Call initializeModel() first.''), demo_world)"
    by blast
  from processImage_not_initialized
         [of state offline_platform demo_world demo_file demo_world] j
  have 2: "processImage offline_platform st' demo_world demo_file =
     (Inl (Error ''Model not initialized. Call initializeModel() first.''), demo_world)"
    by blast
  from h i 1 2 j show ?thesis by simp
qed

text \<open>
  Claim C8. With an encoder whose bytes depend on the bitmap alone, two successful runs
  of the compositing step on the same name, image and mask, started in any two worlds,
  produce the same bytes for the mask and for the composite, and the same files.
\<close>

theorem compositing_deterministic:
  assumes det:
      "\<forall>w1 w2 c b1 b2. toBlob P w1 c = Some b1 \<longrightarrow> toBlob P w2 c = Some b2 \<longrightarrow> b1 = b2"
    and run1: "compositing P nm img maskData w1 = (Inr r1, w1')"
    and run2: "compositing P nm img maskData w2 = (Inr r2, w2')"
  shows "bits (maskFile r1) = bits (maskFile r2) \<and>
         bits (processedFile r1) = bits (processedFile r2) \<and> r1 = r2"
proof -
  from compositing_Inr [OF run1] obtain c1 u1 mb1 d1 v1 b1 where
    1: "draw_mask P img maskData w1 = (Inr c1, u1)" "toBlob P u1 c1 = Some mb1"
       "draw_composite P img maskData (emit ToBlob u1) = (Inr d1, v1)" "toBlob P v1 d1 = Some b1"
       "r1 = \<lparr>maskFile = \<lparr>name = maskFileName nm, type = ''image/png'', bits = mb1\<rparr>,
                processedFile =
                  \<lparr>name = processedFileName nm, type = ''image/png'', bits = b1\<rparr>\<rparr>"
    by blast
  from compositing_Inr [OF run2] obtain c2 u2 mb2 d2 v2 b2 where
    2: "draw_mask P img maskData w2 = (Inr c2, u2)" "toBlob P u2 c2 = Some mb2"
       "draw_composite P img maskData (emit ToBlob u2) = (Inr d2, v2)" "toBlob P v2 d2 = Some b2"
       "r2 = \<lparr>maskFile = \<lparr>name = maskFileName nm, type = ''image/png'', bits = mb2\<rparr>,
                processedFile =
                  \<lparr>name = processedFileName nm, type = ''image/png'', bits = b2\<rparr>\<rparr>"
    by blast
  have "c1 = c2" using 1(1) 2(1) by (auto simp: draw_mask_eq split: if_splits)
  with det 1(2) 2(2) have mb: "mb1 = mb2" by blast
  have "d1 = d2" using 1(3) 2(3) by (auto simp: draw_composite_eq split: if_splits)
  with det 1(4) 2(4) have "b1 = b2" by blast
  with mb 1(5) 2(5) show ?thesis by simp
qed

theorem compositing_deterministic_witness:
  "fst (compositing demo_platform ''cat.png'' demo_image [7, 9] demo_world) =
     Inr \<lparr>maskFile = \<lparr>name = ''cat-mask.png'', type = ''image/png'',
                      bits = [7, 7, 7, 255, 9, 9, 9, 255]\<rparr>,
          processedFile = \<lparr>name = ''cat-bg-blasted.png'', type = ''image/png'',
                      bits = [0, 36, 36, 7, 28, 57, 57, 9]\<rparr>\<rparr> \<and>
   snd (compositing demo_platform ''cat.png'' demo_image [7, 9] demo_world) \<noteq> demo_world \<and>
   fst (compositing demo_platform ''cat.png'' demo_image [7, 9]
          (snd (compositing demo_platform ''cat.png'' demo_image [7, 9] demo_world))) =
   fst (compositing demo_platform ''cat.png'' demo_image [7, 9] demo_world)"
proof -
  let ?run1 = "compositing demo_platform ''cat.png'' demo_image [7, 9] demo_world"
  let ?run2 = "compositing demo_platform ''cat.png'' demo_image [7, 9] (snd ?run1)"
  let ?r = "\<lparr>maskFile = \<lparr>name = ''cat-mask.png'', type = ''image/png'',
                      bits = [7, 7, 7, 255, 9, 9, 9, 255]\<rparr>,
          processedFile = \<lparr>name = ''cat-bg-blasted.png'', type = ''image/png'',
                      bits = [0, 36, 36, 7, 28, 57, 57, 9 :: u8]\<rparr>\<rparr>"
  have det: "\<forall>w1 w2 c b1 b2. toBlob demo_platform w1 c = Some b1 \<longrightarrow>
               toBlob demo_platform w2 c = Some b2 \<longrightarrow> b1 = b2"
    by (simp add: demo_platform_def)
  have f1: "fst ?run1 = Inr ?r" by (simp add: demo_compositing demo_names)
  have w1: "snd ?run1 \<noteq> demo_world"
  proof
    assume "snd ?run1 = demo_world"
    then have "trace (snd ?run1) = trace demo_world" by simp
    then show False by (simp add: demo_compositing)
  qed
  obtain r2 where f2: "fst ?run2 = Inr r2" by (simp add: demo_compositing)
  have run1: "?run1 = (Inr ?r, snd ?run1)" using f1 by (cases ?run1) simp
  have run2: "?run2 = (Inr r2, snd ?run2)" using f2 by (cases ?run2) simp
  from compositing_deterministic [OF det run1 run2] have "?r = r2" by blast
  with f1 f2 w1 show ?thesis by simp
qed

section \<open>Loading the model\<close>

text \<open>
  Claim C6. \<open>initializeModel\<close> resolves to \<open>true\<close> exactly when both loaders
  succeed, and then both handles are set; it never resolves to \<open>false\<close>. When a
  loader throws, it rejects with an \<open>Error\<close> carrying the message of the cause (the
  fixed message when the cause is not an \<open>Error\<close>). The model loader is called once and
  the processor loader at most once.
\<close>

theorem initializeModel_result:
  "(fst (initializeModel P st w) = Inr True \<longleftrightarrow>
      (\<exists>m p. from_pretrained_model P MODEL_ID = Inr m \<and>
             from_pretrained_processor P MODEL_ID = Inr p)) \<and>
   fst (initializeModel P st w) \<noteq> Inr False \<and>
   (\<forall>cause. from_pretrained_model P MODEL_ID = Inl cause \<longrightarrow>
      fst (initializeModel P st w) = Inl (Error (init_message cause))) \<and>
   (\<forall>m cause. from_pretrained_model P MODEL_ID = Inr m \<and>
      from_pretrained_processor P MODEL_ID = Inl cause \<longrightarrow>
      fst (initializeModel P st w) = Inl (Error (init_message cause))) \<and>
   (\<forall>msg. init_message (Error msg) = msg) \<and>
   (\<forall>m p. from_pretrained_model P MODEL_ID = Inr m \<and>
      from_pretrained_processor P MODEL_ID = Inr p \<longrightarrow>
      model (fst (snd (initializeModel P st w))) = Some m \<and>
      processor (fst (snd (initializeModel P st w))) = Some p) \<and>
   (\<exists>es. trace (snd (snd (initializeModel P st w))) = trace w @ es \<and>
      count_list es FromPretrainedModel = 1 \<and>
      count_list es FromPretrainedProcessor \<le> 1)"
  by (auto simp: initializeModel_def Let_def emit_def split: sum.splits option.splits)

theorem initializeModel_result_witness:
  "fst (initializeModel demo_platform state demo_world) = Inr True \<and>
   from_pretrained_model offline_platform MODEL_ID = Inl (Error ''fetch failed'') \<and>
   fst (initializeModel offline_platform state demo_world) = Inl (Error ''fetch failed'') \<and>
   trace (snd (snd (initializeModel offline_platform state demo_world))) =
     [FromPretrainedModel, ConsoleError ''Error initializing model:'' (Error ''fetch failed'')] \<and>
   from_pretrained_processor no_processor_platform MODEL_ID = Inl NonError \<and>
   fst (initializeModel no_processor_platform state demo_world) =
     Inl (Error ''Failed to initialize background removal model'')"
proof -
  have ok: "\<exists>m p. from_pretrained_model demo_platform MODEL_ID = Inr m \<and>
             from_pretrained_processor demo_platform MODEL_ID = Inr p"
    by (simp add: demo_platform_def)
  have bad: "from_pretrained_model offline_platform MODEL_ID = Inl (Error ''fetch failed'')"
    by (simp add: offline_platform_def)
  have half: "from_pretrained_model no_processor_platform MODEL_ID = Inr (\<lambda>_. Inr [7, 9]) \<and>
      from_pretrained_processor no_processor_platform MODEL_ID = Inl NonError"
    by (simp add: no_processor_platform_def demo_platform_def)
  have tr: "trace (snd (snd (initializeModel offline_platform state demo_world))) =
     [FromPretrainedModel, ConsoleError ''Error initializing model:'' (Error ''fetch failed'')]"
    by (simp add: initializeModel_def offline_platform_def demo_world_def emit_def Let_def)
  from initializeModel_result [of demo_platform state demo_world] ok
  have 1: "fst (initializeModel demo_platform state demo_world) = Inr True" by blast
  from initializeModel_result [of offline_platform state demo_world] bad
  have 2: "fst (initializeModel offline_platform state demo_world) = Inl (Error ''fetch failed'')"
    by (metis init_message.simps(1))
  from initializeModel_result [of no_processor_platform state demo_world] half
  have 3: "fst (initializeModel no_processor_platform state demo_world) =
      Inl (Error ''Failed to initialize background removal model'')"
    by (metis init_message.simps(2))
  from 1 2 3 bad half tr show ?thesis by simp
qed

section \<open>The controller\<close>

lemma demo_mounted:
  "run demo_platform demo_world [Mount] =
     \<lparr>app = \<lparr>image' = None, isLoading = False\<rparr>, session = demo_state,
      env = \<lparr>allowLocalModels = False, wasm_proxy = Some True,
             trace = [FromPretrainedModel, FromPretrainedProcessor]\<rparr>,
      inflight = []\<rparr>"
  by (simp add: run_def initial_def mount_effect_def demo_state_eq initializeModel_def
      demo_platform_def state_def demo_world_def emit_def Let_def)

lemma run_snoc: "run P w (evs @ [e]) = step P (run P w evs) e"
  by (simp add: run_def)

lemma demo_selected_eq:
  "demo_selected =
     \<lparr>app = \<lparr>image' = Some \<lparr>id' = 1, file' = demo_file, maskFile' = None,
                              processedFile' = None\<rparr>,
             isLoading = False\<rparr>,
      session = demo_state,
      env = \<lparr>allowLocalModels = False, wasm_proxy = Some True,
             trace = [FromPretrainedModel, FromPretrainedProcessor]\<rparr>,
      inflight = []\<rparr>"
  using run_snoc [of demo_platform demo_world "[Mount]" "Upload 1 (Some [demo_file])"]
  by (simp add: demo_selected_def demo_mounted handleImageUpload_def)

lemma processed_app_eq:
  "processed_app =
     \<lparr>image' = Some \<lparr>id' = 1, file' = demo_file,
        maskFile' = Some \<lparr>name = ''cat-mask.png'', type = ''image/png'',
                      bits = [7, 7, 7, 255, 9, 9, 9, 255]\<rparr>,
        processedFile' = Some \<lparr>name = ''cat-bg-blasted.png'', type = ''image/png'',
                      bits = [0, 36, 36, 7, 28, 57, 57, 9]\<rparr>\<rparr>,
      isLoading = False\<rparr>"
proof -
  have "run demo_platform demo_world [Mount, Upload 1 (Some [demo_file]), Click, Settle 0] =
      step demo_platform (step demo_platform demo_selected Click) (Settle 0)"
    by (simp add: run_def demo_selected_def)
  then show ?thesis
    by (simp add: processed_app_def demo_selected_eq handleClick_call_def
        handleClick_settle_def demo_processImage demo_names demo_file_def)
qed

text \<open>
  Claim C10. When the change event carries no file (\<open>files\<close> is null or empty),
  \<open>handleImageUpload\<close> returns the component's state as it was, mask and composite
  included; with a first file it stores a fresh record of that file; the state changes
  only if a file is present.
\<close>

theorem handleImageUpload_no_file:
  "((files = None \<or> files = Some []) \<longrightarrow> handleImageUpload now files a = a) \<and>
   (\<forall>f fs. files = Some (f # fs) \<longrightarrow>
      handleImageUpload now files a =
        a\<lparr>image' := Some \<lparr>id' = now, file' = f, maskFile' = None, processedFile' = None\<rparr>\<rparr>) \<and>
   (handleImageUpload now files a \<noteq> a \<longrightarrow> (\<exists>f fs. files = Some (f # fs)))"
  by (auto simp: handleImageUpload_def split: option.splits list.splits)

theorem handleImageUpload_no_file_witness:
  "handleImageUpload 2 None processed_app = processed_app \<and>
   handleImageUpload 2 (Some []) processed_app = processed_app \<and>
   handleImageUpload 2 (Some [demo_file]) processed_app =
     \<lparr>image' = Some \<lparr>id' = 2, file' = demo_file, maskFile' = None, processedFile' = None\<rparr>,
      isLoading = False\<rparr> \<and>
   handleImageUpload 2 (Some [demo_file]) processed_app \<noteq> processed_app"
proof -
  have 1: "handleImageUpload 2 None processed_app = processed_app"
    using handleImageUpload_no_file [of None 2 processed_app] by blast
  have 2: "handleImageUpload 2 (Some []) processed_app = processed_app"
    using handleImageUpload_no_file [of "Some []" 2 processed_app] by blast
  have 3: "handleImageUpload 2 (Some [demo_file]) processed_app =
      processed_app\<lparr>image' := Some \<lparr>id' = 2, file' = demo_file, maskFile' = None,
        processedFile' = None\<rparr>\<rparr>"
    using handleImageUpload_no_file [of "Some [demo_file]" 2 processed_app] by blast
  from 1 2 3 show ?thesis by (simp add: processed_app_eq)
qed

lemma step_paired:
  assumes "\<forall>r. image' (app s) = Some r \<longrightarrow> (maskFile' r = None) = (processedFile' r = None)"
  shows "\<forall>r. image' (app (step P s e)) = Some r \<longrightarrow>
           (maskFile' r = None) = (processedFile' r = None)"
proof (cases e)
  case Mount
  with assms show ?thesis
    by (simp add: mount_effect_def Let_def split: prod.splits)
next
  case (Upload now files)
  with assms show ?thesis
    by (auto simp: handleImageUpload_def split: option.splits list.splits)
next
  case Click
  with assms show ?thesis
    by (simp add: handleClick_call_def split: option.splits)
next
  case (Settle k)
  with assms show ?thesis
    by (auto simp: handleClick_settle_def Let_def split: prod.splits sum.splits)
qed

lemma foldl_step_paired:
  "\<forall>r. image' (app s) = Some r \<longrightarrow> (maskFile' r = None) = (processedFile' r = None) \<Longrightarrow>
   \<forall>r. image' (app (foldl (step P) s evs)) = Some r \<longrightarrow>
     (maskFile' r = None) = (processedFile' r = None)"
proof (induction evs arbitrary: s)
  case Nil
  then show ?case by simp
next
  case (Cons e evs)
  from Cons.IH [OF step_paired [OF Cons.prems]] show ?case by simp
qed

lemma compositing_Inr_iff:
  "fst (compositing P nm img maskData u) = Inr r \<longleftrightarrow>
     (\<exists>maskBlob blob.
        getContext P (emits [CreateCanvas] u) \<and>
        toBlob P (emits [CreateCanvas, GetContext] u)
          (paint_mask img maskData (createCanvas (width img) (height img))) = Some maskBlob \<and>
        getContext P (emits [CreateCanvas, GetContext, ToBlob, CreateCanvas] u) \<and>
        toBlob P (emits [CreateCanvas, GetContext, ToBlob, CreateCanvas, GetContext] u)
          (paint_composite img maskData (createCanvas (width img) (height img))) = Some blob \<and>
        r = \<lparr>maskFile = \<lparr>name = maskFileName nm, type = ''image/png'', bits = maskBlob\<rparr>,
             processedFile =
               \<lparr>name = processedFileName nm, type = ''image/png'', bits = blob\<rparr>\<rparr>)"
  unfolding compositing_eq by (auto split: option.splits)

lemma processImage_fst:
  assumes "model st = Some m" "processor st = Some p" "fromURL P f = Inr img"
    and "predict_mask P m p img (emit FromURL w) = (Inr maskData, u)"
  shows "fst (processImage P st w f) =
           (case fst (compositing P (name f) img maskData u) of
              Inl error \<Rightarrow> Inl (Error ''Failed to process image'')
            | Inr r \<Rightarrow> Inr r)"
  unfolding processImage_eq [OF assms]
  by (cases "compositing P (name f) img maskData u") (auto split: sum.splits)

text \<open>
  Claim C3. \<open>processImage\<close> resolves exactly when the guard, the decoding, the
  prediction, both contexts and both blobs succeed, and then to the two files with those
  blobs; in particular, when the mask blob has been made and the context or the blob of
  the composite fails, the call rejects and the mask file is dropped. A settled
  \<open>handleClick\<close> either leaves the component's state alone or stores a record with mask
  and composite both set. In every state the system reaches, the mask of the image record
  is set exactly when its composite is.
\<close>

theorem no_partial_result:
  "(\<forall>r. fst (processImage P st w f) = Inr r \<longleftrightarrow>
      (\<exists>m p img maskData u maskBlob blob.
         model st = Some m \<and> processor st = Some p \<and> fromURL P f = Inr img \<and>
         predict_mask P m p img (emit FromURL w) = (Inr maskData, u) \<and>
         getContext P (emits [CreateCanvas] u) \<and>
         toBlob P (emits [CreateCanvas, GetContext] u)
           (paint_mask img maskData (createCanvas (width img) (height img))) = Some maskBlob \<and>
         getContext P (emits [CreateCanvas, GetContext, ToBlob, CreateCanvas] u) \<and>
         toBlob P (emits [CreateCanvas, GetContext, ToBlob, CreateCanvas, GetContext] u)
           (paint_composite img maskData (createCanvas (width img) (height img))) =
           Some blob \<and>
         r = \<lparr>maskFile =
                \<lparr>name = maskFileName (name f), type = ''image/png'', bits = maskBlob\<rparr>,
              processedFile =
                \<lparr>name = processedFileName (name f), type = ''image/png'', bits = blob\<rparr>\<rparr>)) \<and>
   (\<forall>m p img maskData u maskBlob.
      model st = Some m \<and> processor st = Some p \<and> fromURL P f = Inr img \<and>
      predict_mask P m p img (emit FromURL w) = (Inr maskData, u) \<and>
      getContext P (emits [CreateCanvas] u) \<and>
      toBlob P (emits [CreateCanvas, GetContext] u)
        (paint_mask img maskData (createCanvas (width img) (height img))) = Some maskBlob \<and>
      (\<not> getContext P (emits [CreateCanvas, GetContext, ToBlob, CreateCanvas] u) \<or>
       toBlob P (emits [CreateCanvas, GetContext, ToBlob, CreateCanvas, GetContext] u)
         (paint_composite img maskData (createCanvas (width img) (height img))) = None) \<longrightarrow>
      fst (processImage P st w f) = Inl (Error ''Failed to process image'')) \<and>
   (app (handleClick_settle P s k) = app s \<or>
    (\<exists>r. image' (app (handleClick_settle P s k)) = Some r \<and>
       maskFile' r \<noteq> None \<and> processedFile' r \<noteq> None)) \<and>
   (\<forall>r. image' (app (run P w0 evs)) = Some r \<longrightarrow>
      (maskFile' r = None \<longleftrightarrow> processedFile' r = None))"
proof -
  have 1: "fst (processImage P st w f) = Inr r \<longleftrightarrow>
      (\<exists>m p img maskData u maskBlob blob.
         model st = Some m \<and> processor st = Some p \<and> fromURL P f = Inr img \<and>
         predict_mask P m p img (emit FromURL w) = (Inr maskData, u) \<and>
         getContext P (emits [CreateCanvas] u) \<and>
         toBlob P (emits [CreateCanvas, GetContext] u)
           (paint_mask img maskData (createCanvas (width img) (height img))) = Some maskBlob \<and>
         getContext P (emits [CreateCanvas, GetContext, ToBlob, CreateCanvas] u) \<and>
         toBlob P (emits [CreateCanvas, GetContext, ToBlob, CreateCanvas, GetContext] u)
           (paint_composite img maskData (createCanvas (width img) (height img))) =
           Some blob \<and>
         r = \<lparr>maskFile =
                \<lparr>name = maskFileName (name f), type = ''image/png'', bits = maskBlob\<rparr>,
              processedFile =
                \<lparr>name = processedFileName (name f), type = ''image/png'', bits = blob\<rparr>\<rparr>)"
    (is "?L \<longleftrightarrow> ?R") for r
  proof
    assume ?L
    then have "processImage P st w f = (Inr r, snd (processImage P st w f))"
      by (cases "processImage P st w f") simp
    from processImage_Inr [OF this] obtain m p img maskData u where
      pre: "model st = Some m" "processor st = Some p" "fromURL P f = Inr img"
        "predict_mask P m p img (emit FromURL w) = (Inr maskData, u)"
      and c: "fst (compositing P (name f) img maskData u) = Inr r"
      by force
    from c [unfolded compositing_Inr_iff] pre show ?R by blast
  next
    assume ?R
    then obtain m p img maskData u where
      pre: "model st = Some m" "processor st = Some p" "fromURL P f = Inr img"
        "predict_mask P m p img (emit FromURL w) = (Inr maskData, u)"
      and c: "fst (compositing P (name f) img maskData u) = Inr r"
      unfolding compositing_Inr_iff by blast
    show ?L unfolding processImage_fst [OF pre] c by simp
  qed
  have 2: "fst (processImage P st w f) = Inl (Error ''Failed to process image'')"
    if h: "model st = Some m \<and> processor st = Some p \<and> fromURL P f = Inr img \<and>
      predict_mask P m p img (emit FromURL w) = (Inr maskData, u) \<and>
      getContext P (emits [CreateCanvas] u) \<and>
      toBlob P (emits [CreateCanvas, GetContext] u)
        (paint_mask img maskData (createCanvas (width img) (height img))) = Some maskBlob \<and>
      (\<not> getContext P (emits [CreateCanvas, GetContext, ToBlob, CreateCanvas] u) \<or>
       toBlob P (emits [CreateCanvas, GetContext, ToBlob, CreateCanvas, GetContext] u)
         (paint_composite img maskData (createCanvas (width img) (height img))) = None)"
    for m p img maskData u maskBlob
  proof -
    from h have pre: "model st = Some m" "processor st = Some p" "fromURL P f = Inr img"
        "predict_mask P m p img (emit FromURL w) = (Inr maskData, u)"
      by blast+
    from h have "\<exists>e. fst (compositing P (name f) img maskData u) = Inl e"
      unfolding compositing_eq by (auto split: option.splits)
    then show ?thesis unfolding processImage_fst [OF pre] by auto
  qed
  have 3: "app (handleClick_settle P s k) = app s \<or>
    (\<exists>r. image' (app (handleClick_settle P s k)) = Some r \<and>
       maskFile' r \<noteq> None \<and> processedFile' r \<noteq> None)"
    by (simp add: handleClick_settle_def Let_def split: prod.splits sum.splits)
  have "\<forall>r. image' (app (initial w0 :: ('a, 'b) system)) = Some r \<longrightarrow>
          (maskFile' r = None) = (processedFile' r = None)"
    by (simp add: initial_def)
  from foldl_step_paired [OF this]
  have 4: "\<forall>r. image' (app (run P w0 evs)) = Some r \<longrightarrow>
      (maskFile' r = None \<longleftrightarrow> processedFile' r = None)"
    by (simp add: run_def)
  from 1 2 3 4 show ?thesis by blast
qed

lemma one_blob_answers:
  "getContext one_blob_platform w"
  "fromURL one_blob_platform f = Inr demo_image"
  "toBlob one_blob_platform w c =
     (if ToBlob \<in> set (trace w) then None else Some (unpremultiply (data c)))"
  "predict_mask one_blob_platform (\<lambda>_. Inr [7, 9]) (\<lambda>_. Inr ()) img w =
     (Inr [7, 9], emits [CallProcessor, CallModel, ResizeMask] w)"
  by (simp_all add: one_blob_platform_def demo_platform_def getImageData_def predict_mask_def
      Let_def emits_def)

theorem no_partial_result_witness:
  "fst (processImage demo_platform demo_state demo_world demo_file) =
     Inr \<lparr>maskFile = \<lparr>name = ''cat-mask.png'', type = ''image/png'',
                      bits = [7, 7, 7, 255, 9, 9, 9, 255]\<rparr>,
          processedFile = \<lparr>name = ''cat-bg-blasted.png'', type = ''image/png'',
                      bits = [0, 36, 36, 7, 28, 57, 57, 9]\<rparr>\<rparr> \<and>
   toBlob one_blob_platform
     (emits [FromURL, CallProcessor, CallModel, ResizeMask, CreateCanvas, GetContext] demo_world)
     (paint_mask demo_image [7, 9] (createCanvas (width demo_image) (height demo_image))) =
     Some [7, 7, 7, 255, 9, 9, 9, 255] \<and>
   toBlob one_blob_platform
     (emits [FromURL, CallProcessor, CallModel, ResizeMask, CreateCanvas, GetContext, ToBlob,
             CreateCanvas, GetContext] demo_world)
     (paint_composite demo_image [7, 9] (createCanvas (width demo_image) (height demo_image))) =
     None \<and>
   fst (processImage one_blob_platform demo_state demo_world demo_file) =
     Inl (Error ''Failed to process image'') \<and>
   image' processed_app =
     Some \<lparr>id' = 1, file' = demo_file,
        maskFile' = Some \<lparr>name = ''cat-mask.png'', type = ''image/png'',
                      bits = [7, 7, 7, 255, 9, 9, 9, 255]\<rparr>,
        processedFile' = Some \<lparr>name = ''cat-bg-blasted.png'', type = ''image/png'',
                      bits = [0, 36, 36, 7, 28, 57, 57, 9]\<rparr>\<rparr> \<and>
   (maskFile' (the (image' processed_app)) = None) =
   (processedFile' (the (image' processed_app)) = None)"
proof -
  let ?u = "emits [FromURL, CallProcessor, CallModel, ResizeMask] demo_world"
  let ?res = "\<lparr>maskFile = \<lparr>name = maskFileName (name demo_file), type = ''image/png'',
                      bits = [7, 7, 7, 255, 9, 9, 9, 255]\<rparr>,
          processedFile = \<lparr>name = processedFileName (name demo_file), type = ''image/png'',
                      bits = [0, 36, 36, 7, 28, 57, 57, 9 :: u8]\<rparr>\<rparr>"
  have good: "model demo_state = Some (\<lambda>_. Inr [7, 9]) \<and>
      processor demo_state = Some (\<lambda>_. Inr ()) \<and>
      fromURL demo_platform demo_file = Inr demo_image \<and>
      predict_mask demo_platform (\<lambda>_. Inr [7, 9]) (\<lambda>_. Inr ()) demo_image
        (emit FromURL demo_world) = (Inr [7, 9], ?u) \<and>
      getContext demo_platform (emits [CreateCanvas] ?u) \<and>
      toBlob demo_platform (emits [CreateCanvas, GetContext] ?u)
        (paint_mask demo_image [7, 9] (createCanvas (width demo_image) (height demo_image))) =
        Some [7, 7, 7, 255, 9, 9, 9, 255] \<and>
      getContext demo_platform (emits [CreateCanvas, GetContext, ToBlob, CreateCanvas] ?u) \<and>
      toBlob demo_platform (emits [CreateCanvas, GetContext, ToBlob, CreateCanvas, GetContext] ?u)
        (paint_composite demo_image [7, 9]
           (createCanvas (width demo_image) (height demo_image))) =
        Some [0, 36, 36, 7, 28, 57, 57, 9] \<and>
      ?res = ?res"
    unfolding demo_paint_mask demo_paint_composite
    by (simp add: demo_state_eq demo_predict emit_as_emits demo_image_read)
  have bad: "model demo_state = Some (\<lambda>_. Inr [7, 9]) \<and>
      processor demo_state = Some (\<lambda>_. Inr ()) \<and>
      fromURL one_blob_platform demo_file = Inr demo_image \<and>
      predict_mask one_blob_platform (\<lambda>_. Inr [7, 9]) (\<lambda>_. Inr ()) demo_image
        (emit FromURL demo_world) = (Inr [7, 9], ?u) \<and>
      getContext one_blob_platform (emits [CreateCanvas] ?u) \<and>
      toBlob one_blob_platform (emits [CreateCanvas, GetContext] ?u)
        (paint_mask demo_image [7, 9] (createCanvas (width demo_image) (height demo_image))) =
        Some [7, 7, 7, 255, 9, 9, 9, 255] \<and>
      (\<not> getContext one_blob_platform
           (emits [CreateCanvas, GetContext, ToBlob, CreateCanvas] ?u) \<or>
       toBlob one_blob_platform
         (emits [CreateCanvas, GetContext, ToBlob, CreateCanvas, GetContext] ?u)
         (paint_composite demo_image [7, 9]
            (createCanvas (width demo_image) (height demo_image))) = None)"
    unfolding demo_paint_mask demo_paint_composite
    by (simp add: demo_state_eq one_blob_answers emit_as_emits demo_image_read demo_world_def)
  note t = no_partial_result [of demo_platform demo_state demo_world demo_file _ 0 demo_world
      "[Mount, Upload 1 (Some [demo_file]), Click, Settle 0]"]
  note t' = no_partial_result [of one_blob_platform demo_state demo_world demo_file]
  from t good have 1: "fst (processImage demo_platform demo_state demo_world demo_file) = Inr ?res"
    by blast
  from t' bad have 2: "fst (processImage one_blob_platform demo_state demo_world demo_file) =
      Inl (Error ''Failed to process image'')"
    by blast
  have r: "image' processed_app =
     Some \<lparr>id' = 1, file' = demo_file,
        maskFile' = Some \<lparr>name = ''cat-mask.png'', type = ''image/png'',
                      bits = [7, 7, 7, 255, 9, 9, 9, 255]\<rparr>,
        processedFile' = Some \<lparr>name = ''cat-bg-blasted.png'', type = ''image/png'',
                      bits = [0, 36, 36, 7, 28, 57, 57, 9]\<rparr>\<rparr>"
    by (simp add: processed_app_eq)
  from t r have 3: "(maskFile' (the (image' processed_app)) = None) =
        (processedFile' (the (image' processed_app)) = None)"
    unfolding processed_app_def by auto
  from bad have 4: "toBlob one_blob_platform
     (emits [FromURL, CallProcessor, CallModel, ResizeMask, CreateCanvas, GetContext] demo_world)
     (paint_mask demo_image [7, 9] (createCanvas (width demo_image) (height demo_image))) =
     Some [7, 7, 7, 255, 9, 9, 9, 255] \<and>
   toBlob one_blob_platform
     (emits [FromURL, CallProcessor, CallModel, ResizeMask, CreateCanvas, GetContext, ToBlob,
             CreateCanvas, GetContext] demo_world)
     (paint_composite demo_image [7, 9] (createCanvas (width demo_image) (height demo_image))) =
     None"
    by (simp add: one_blob_answers)
  from 1 2 3 4 r show ?thesis by (simp add: demo_names demo_file_def)
qed



end
